theory Spec2Isabelle
  imports Complex_Main "HOL-Library.Log_Nat"
begin

section \<open>Numbers, decimal strings and time\<close>

text \<open>
  The program is the class \<open>AutoTradingSystem\<close> (JavaScript). Its numbers are IEEE 754
  doubles. A real number of the model stands for the double nearest to it,
  \<open>roundDouble x\<close>, so a decimal literal (\<open>0.7\<close>), a configured fraction (\<open>0.015\<close>) and a
  decimal string read by \<open>parseFloat\<close> are written as the decimals they are.

  Where a result is printed with \<open>toFixed\<close>, the rounding of every single operation can
  show in the last printed digit. So the confidence of \<open>analyzeMarket\<close>, everything in
  \<open>calculateTradeParams\<close> and the pnl of \<open>completeTrade\<close> are computed with the
  operations of doubles (\<open>dadd\<close>, \<open>dsub\<close>, \<open>dmul\<close>, \<open>ddiv\<close>, and \<open>fadd\<close> to \<open>fdiv\<close> where
  a division by zero can occur): each rounds its operands to doubles, operates exactly
  and rounds the result, as IEEE 754 prescribes. The indicators and the statistics are
  computed in exact arithmetic, which differs from the doubles of the source by rounding
  errors of relative size 2 to the power -53 per operation.

  Not modelled: overflow (a result beyond about \<open>1.8e308\<close> is Infinity in the source),
  the sign of zero (a zero divisor counts as \<open>+0\<close>), NaN or Infinity as an input
  (a price, a close of a candle, a configured value), and two different inputs that are
  the same double (decimals of more than 15 significant digits): inputs are compared as
  the decimals they are.

  \<open>Date.now()\<close> and \<open>new Date()\<close> read a clock: every read is a parameter, in
  milliseconds.
\<close>

type_synonym time = int

subsection \<open>Rounding to a double\<close>

text \<open>
  Rounding to the nearest integer, a tie going to the even one, and rounding to the
  nearest double (binary64, round-to-nearest-even). Scaled by \<open>2 ^ 1074\<close> every double
  is an integer of at most 53 significant bits: the number is scaled, the bits \<open>b\<close> of
  its integer part are counted, and it is rounded to a multiple of \<open>2 ^ (b - 53)\<close> (of 1 in
  the subnormal range).
\<close>

definition roundHalfEven :: "real \<Rightarrow> int" where
  "roundHalfEven y =
     (let f = \<lfloor>y\<rfloor>; d = y - real_of_int f
      in if d < 1 / 2 then f else if d > 1 / 2 then f + 1 else if even f then f else f + 1)"

definition subnormalExponent :: nat where
  "subnormalExponent = 1074"

definition roundDouble :: "real \<Rightarrow> real" where
  "roundDouble x =
     (let y = x * 2 ^ subnormalExponent;
          b = bitlen \<lfloor>\<bar>y\<bar>\<rfloor>;
          u = 2 ^ nat (b - 53)
      in real_of_int (roundHalfEven (y / u)) * u / 2 ^ subnormalExponent)"

text \<open>
  The scale at which a number has 53 bits before the point; it serves to evaluate
  \<open>roundDouble\<close> on a given number.
\<close>

definition doubleScale :: "real \<Rightarrow> nat" where
  "doubleScale x =
     (if 1 \<le> \<bar>x\<bar> then nat (53 - bitlen \<lfloor>\<bar>x\<bar>\<rfloor>)
      else
        (let c = bitlen \<lfloor>1 / \<bar>x\<bar>\<rfloor>
         in if \<bar>x\<bar> * 2 ^ nat (c - 1) = 1 then nat (51 + c) else nat (52 + c)))"

text \<open>
  The operations of doubles on finite numbers. \<open>ddiv\<close> is used with a constant divisor
  only.
\<close>

definition dadd :: "real \<Rightarrow> real \<Rightarrow> real" where
  "dadd a b = roundDouble (roundDouble a + roundDouble b)"

definition dsub :: "real \<Rightarrow> real \<Rightarrow> real" where
  "dsub a b = roundDouble (roundDouble a - roundDouble b)"

definition dmul :: "real \<Rightarrow> real \<Rightarrow> real" where
  "dmul a b = roundDouble (roundDouble a * roundDouble b)"

definition ddiv :: "real \<Rightarrow> real \<Rightarrow> real" where
  "ddiv a b = roundDouble (roundDouble a / roundDouble b)"

subsection \<open>Decimal strings\<close>

text \<open>
  Several fields of the source hold a number printed by \<open>x.toFixed(d)\<close> and read back
  by \<open>parseFloat\<close>. Such a field is modelled by the decimal number the string denotes.
  \<open>toFixed\<close> rounds the exact value of the double it is applied to, to \<open>d\<close> decimals, a
  tie going away from zero (ECMAScript: of two closest integers \<open>n\<close> the larger one, on
  the absolute value); its argument is always a double here, the result of an
  operation or of \<open>roundDouble\<close>.
\<close>

definition toFixed :: "nat \<Rightarrow> real \<Rightarrow> real" where
  "toFixed d x = sgn x * real_of_int \<lfloor>\<bar>x\<bar> * 10 ^ d + 1 / 2\<rfloor> / 10 ^ d"

subsection \<open>Numbers that may be NaN or infinite\<close>

text \<open>
  A division by zero gives Infinity or NaN in the source, and the program goes on with
  it: the pnl of a trade whose entry price is 0, the statistics that pnl is added to,
  the risk-reward ratio of a zero risk, the volatility of closes one of which is 0.
  These values have the type \<open>jsnum\<close>, with the arithmetic and the comparisons of
  IEEE 754 on the special values and exact arithmetic on the finite ones. \<open>+\<close>, \<open>-\<close>, \<open>*\<close>, \<open>/\<close>, \<open>\<bar>x\<bar>\<close>, \<open><\<close>, \<open>\<le>\<close> and the numerals on
  \<open>jsnum\<close> are these.
\<close>

datatype jsnum = Num real | PosInf | NegInf | NaN

definition jsNeg :: "jsnum \<Rightarrow> jsnum" where
  "jsNeg a = (case a of Num x \<Rightarrow> Num (- x) | PosInf \<Rightarrow> NegInf | NegInf \<Rightarrow> PosInf | NaN \<Rightarrow> NaN)"

definition jsAdd :: "jsnum \<Rightarrow> jsnum \<Rightarrow> jsnum" where
  "jsAdd a b =
     (case (a, b) of
        (NaN, _) \<Rightarrow> NaN
      | (_, NaN) \<Rightarrow> NaN
      | (Num x, Num y) \<Rightarrow> Num (x + y)
      | (PosInf, NegInf) \<Rightarrow> NaN
      | (NegInf, PosInf) \<Rightarrow> NaN
      | (PosInf, _) \<Rightarrow> PosInf
      | (_, PosInf) \<Rightarrow> PosInf
      | (NegInf, _) \<Rightarrow> NegInf
      | (_, NegInf) \<Rightarrow> NegInf)"

definition jsMul :: "jsnum \<Rightarrow> jsnum \<Rightarrow> jsnum" where
  "jsMul a b =
     (case (a, b) of
        (NaN, _) \<Rightarrow> NaN
      | (_, NaN) \<Rightarrow> NaN
      | (Num x, Num y) \<Rightarrow> Num (x * y)
      | (Num x, PosInf) \<Rightarrow> (if x > 0 then PosInf else if x < 0 then NegInf else NaN)
      | (Num x, NegInf) \<Rightarrow> (if x > 0 then NegInf else if x < 0 then PosInf else NaN)
      | (PosInf, Num y) \<Rightarrow> (if y > 0 then PosInf else if y < 0 then NegInf else NaN)
      | (NegInf, Num y) \<Rightarrow> (if y > 0 then NegInf else if y < 0 then PosInf else NaN)
      | (PosInf, PosInf) \<Rightarrow> PosInf
      | (NegInf, NegInf) \<Rightarrow> PosInf
      | (PosInf, NegInf) \<Rightarrow> NegInf
      | (NegInf, PosInf) \<Rightarrow> NegInf)"

definition jsDiv :: "jsnum \<Rightarrow> jsnum \<Rightarrow> jsnum" where
  "jsDiv a b =
     (case (a, b) of
        (NaN, _) \<Rightarrow> NaN
      | (_, NaN) \<Rightarrow> NaN
      | (Num x, Num y) \<Rightarrow>
          (if y \<noteq> 0 then Num (x / y)
           else if x > 0 then PosInf else if x < 0 then NegInf else NaN)
      | (Num x, _) \<Rightarrow> Num 0
      | (PosInf, Num y) \<Rightarrow> (if y \<ge> 0 then PosInf else NegInf)
      | (NegInf, Num y) \<Rightarrow> (if y \<ge> 0 then NegInf else PosInf)
      | (_, _) \<Rightarrow> NaN)"

definition jsAbs :: "jsnum \<Rightarrow> jsnum" where
  "jsAbs a = (case a of Num x \<Rightarrow> Num \<bar>x\<bar> | PosInf \<Rightarrow> PosInf | NegInf \<Rightarrow> PosInf | NaN \<Rightarrow> NaN)"

definition jsLess :: "jsnum \<Rightarrow> jsnum \<Rightarrow> bool" where
  "jsLess a b =
     (case (a, b) of
        (NaN, _) \<Rightarrow> False
      | (_, NaN) \<Rightarrow> False
      | (Num x, Num y) \<Rightarrow> x < y
      | (NegInf, NegInf) \<Rightarrow> False
      | (NegInf, _) \<Rightarrow> True
      | (PosInf, _) \<Rightarrow> False
      | (Num x, PosInf) \<Rightarrow> True
      | (Num x, NegInf) \<Rightarrow> False)"

instantiation jsnum :: "{zero, one, plus, minus, uminus, times, inverse, abs, ord}"
begin

definition zero_jsnum :: jsnum where
  "zero_jsnum = Num 0"

definition one_jsnum :: jsnum where
  "one_jsnum = Num 1"

definition uminus_jsnum :: "jsnum \<Rightarrow> jsnum" where
  "uminus_jsnum a = jsNeg a"

definition plus_jsnum :: "jsnum \<Rightarrow> jsnum \<Rightarrow> jsnum" where
  "plus_jsnum a b = jsAdd a b"

definition minus_jsnum :: "jsnum \<Rightarrow> jsnum \<Rightarrow> jsnum" where
  "minus_jsnum a b = jsAdd a (jsNeg b)"

definition times_jsnum :: "jsnum \<Rightarrow> jsnum \<Rightarrow> jsnum" where
  "times_jsnum a b = jsMul a b"

definition divide_jsnum :: "jsnum \<Rightarrow> jsnum \<Rightarrow> jsnum" where
  "divide_jsnum a b = jsDiv a b"

definition inverse_jsnum :: "jsnum \<Rightarrow> jsnum" where
  "inverse_jsnum a = jsDiv (Num 1) a"

definition abs_jsnum :: "jsnum \<Rightarrow> jsnum" where
  "abs_jsnum a = jsAbs a"

definition less_jsnum :: "jsnum \<Rightarrow> jsnum \<Rightarrow> bool" where
  "less_jsnum a b = jsLess a b"

definition less_eq_jsnum :: "jsnum \<Rightarrow> jsnum \<Rightarrow> bool" where
  "less_eq_jsnum a b = (jsLess a b \<or> (a = b \<and> a \<noteq> NaN))"

instance ..

end

instance jsnum :: semigroup_add
proof
  fix a b c :: jsnum
  show "a + b + c = a + (b + c)"
    by (cases a; cases b; cases c) (simp_all add: plus_jsnum_def jsAdd_def)
qed

instance jsnum :: numeral ..

text \<open>
  The operations of doubles on these numbers, \<open>Math.min\<close> of two of them, and \<open>toFixed\<close>,
  which prints the special values by name (\<open>parseFloat\<close> reads the names back).
\<close>

definition fl :: "jsnum \<Rightarrow> jsnum" where
  "fl a = (case a of Num x \<Rightarrow> Num (roundDouble x) | _ \<Rightarrow> a)"

definition fadd :: "jsnum \<Rightarrow> jsnum \<Rightarrow> jsnum" where
  "fadd a b = fl (fl a + fl b)"

definition fsub :: "jsnum \<Rightarrow> jsnum \<Rightarrow> jsnum" where
  "fsub a b = fl (fl a - fl b)"

definition fmul :: "jsnum \<Rightarrow> jsnum \<Rightarrow> jsnum" where
  "fmul a b = fl (fl a * fl b)"

definition fdiv :: "jsnum \<Rightarrow> jsnum \<Rightarrow> jsnum" where
  "fdiv a b = fl (fl a / fl b)"

definition mathMin2 :: "jsnum \<Rightarrow> jsnum \<Rightarrow> jsnum" where
  "mathMin2 a b = (if a = NaN \<or> b = NaN then NaN else if a < b then a else b)"

definition jtoFixed :: "nat \<Rightarrow> jsnum \<Rightarrow> jsnum" where
  "jtoFixed d a = (case a of Num x \<Rightarrow> Num (toFixed d x) | _ \<Rightarrow> a)"

section \<open>Data model\<close>

datatype action = BUY | SELL | HOLD

datatype trend = bullish | bearish | neutral

datatype status = active | hit_tp1 | hit_tp2 | hit_sl

datatype outcome = win | loss

text \<open>
  \<open>this.state.stats\<close>, with the initial values of the constructor. The counters are
  integers; the sums and averages of pnl may be NaN or infinite.
\<close>

record stats =
  totalTrades :: int
  winningTrades :: int
  totalPnL :: jsnum
  currentStreak :: int
  bestStreak :: int
  maxWin :: jsnum
  maxLoss :: jsnum
  avgWin :: jsnum
  avgLoss :: jsnum

definition initialStats :: stats where
  "initialStats = \<lparr> totalTrades = 0, winningTrades = 0, totalPnL = 0, currentStreak = 0,
     bestStreak = 0, maxWin = 0, maxLoss = 0, avgWin = 0, avgLoss = 0 \<rparr>"

section \<open>Statistics\<close>

text \<open>
  \<open>updateStats(result, pnl)\<close>, statement by statement; each \<open>let\<close> is one mutation of
  \<open>stats\<close>. The display update at its end touches the page only.
\<close>

definition updateStats :: "outcome \<Rightarrow> jsnum \<Rightarrow> stats \<Rightarrow> stats" where
  "updateStats res pnl st =
     (let s1 = st\<lparr> totalTrades := totalTrades st + 1 \<rparr>;
          s2 =
            (if res = win then
               (let a = s1\<lparr> winningTrades := winningTrades s1 + 1 \<rparr>;
                    b = a\<lparr> currentStreak := currentStreak a + 1 \<rparr>;
                    c = (if currentStreak b > bestStreak b
                         then b\<lparr> bestStreak := currentStreak b \<rparr> else b);
                    d = (if pnl > maxWin c then c\<lparr> maxWin := pnl \<rparr> else c);
                    winCount = winningTrades d - 1
                in d\<lparr> avgWin :=
                     (if winCount > 0
                      then ((avgWin d * Num (real_of_int winCount)) + pnl) / Num (real_of_int (winningTrades d))
                      else pnl) \<rparr>)
             else
               (let a = s1\<lparr> currentStreak := 0 \<rparr>;
                    b = (if pnl < maxLoss a then a\<lparr> maxLoss := pnl \<rparr> else a);
                    lossCount = (totalTrades b - winningTrades b) - 1
                in b\<lparr> avgLoss :=
                     (if lossCount > 0
                      then ((avgLoss b * Num (real_of_int lossCount)) + pnl)
                           / Num (real_of_int (totalTrades b - winningTrades b))
                      else pnl) \<rparr>))
      in s2\<lparr> totalPnL := totalPnL s2 + pnl \<rparr>)"

section \<open>Errors\<close>

text \<open>
  What a call can end in other than its result (\<open>Inl\<close> in a sum type).
  \<^item> \<open>TypeError\<close>: the JavaScript exception of reading a property of \<open>null\<close> or of
    \<open>undefined\<close>.
  \<^item> \<open>FetchError\<close>: the \<open>Error\<close> thrown by \<open>getTickerData\<close> (transport failure or an
    unexpected payload).
  \<^item> \<open>InvalidStateError\<close>: the error of the specification's taxonomy; no statement of
    the source raises it, it is here so that this can be stated.
\<close>

datatype error = TypeError | FetchError | InvalidStateError

section \<open>IndicatorEngine\<close>

subsection \<open>RSI\<close>

text \<open>
  The first loop of \<open>calculateRSI\<close>: \<open>for (let i = 1; i < 14; i++)\<close>, accumulating
  \<open>gains\<close> and \<open>losses\<close>. It only runs when there are 14 closes, so every index read
  is in range.
\<close>

function rsiSeedLoop :: "real list \<Rightarrow> nat \<Rightarrow> real \<times> real \<Rightarrow> real \<times> real" where
  "rsiSeedLoop closes i (gains, losses) =
     (if i < 14 then
        (let change = closes ! i - closes ! (i - 1)
         in if change > 0 then rsiSeedLoop closes (i + 1) (gains + change, losses)
            else rsiSeedLoop closes (i + 1) (gains, losses + \<bar>change\<bar>))
      else (gains, losses))"
  by pat_completeness auto
termination
  by (relation "measure (\<lambda>(closes, i, acc). 14 - i)") auto

declare rsiSeedLoop.simps [simp del]

text \<open>
  The second loop: \<open>for (let i = 14; i < closes.length; i++)\<close>, Wilder's update of
  \<open>avgGain\<close> and \<open>avgLoss\<close> (here \<open>avgG\<close> and \<open>avgL\<close>: \<open>avgLoss\<close> is also a field of
  the statistics, and \<open>loss\<close> an outcome).
\<close>

function rsiSmoothLoop :: "real list \<Rightarrow> nat \<Rightarrow> real \<times> real \<Rightarrow> real \<times> real" where
  "rsiSmoothLoop closes i (avgG, avgL) =
     (if i < length closes then
        (let change = closes ! i - closes ! (i - 1);
             gain = (if change > 0 then change else 0);
             lossAmount = (if change < 0 then \<bar>change\<bar> else 0)
         in rsiSmoothLoop closes (i + 1)
              ((avgG * 13 + gain) / 14, (avgL * 13 + lossAmount) / 14))
      else (avgG, avgL))"
  by pat_completeness auto
termination
  by (relation "measure (\<lambda>(closes, i, acc). length closes - i)") auto

declare rsiSmoothLoop.simps [simp del]

definition calculateRSI :: "real list \<Rightarrow> real" where
  "calculateRSI closes =
     (if length closes < 14 then 50
      else
        (let (gains, losses) = rsiSeedLoop closes 1 (0, 0);
             (avgG, avgL) = rsiSmoothLoop closes 14 (gains / 13, losses / 13)
         in if avgL = 0 then 100
            else (let rs = avgG / avgL in 100 - (100 / (1 + rs)))))"

text \<open>
  The same indicator in the words of the specification, to compare \<open>calculateRSI\<close>
  with: the gain and the loss of the delta at index \<open>i\<close>, the simple average of the
  deltas 1 to 13 divided by 13, and from index 14 on \<open>avg = (avg * 13 + current) / 14\<close>.
  \<open>wilder_average_spec cur n\<close> is the average once the delta at index \<open>n\<close> is in.
\<close>

definition gain_spec :: "real list \<Rightarrow> nat \<Rightarrow> real" where
  "gain_spec closes i = max (closes ! i - closes ! (i - 1)) 0"

definition loss_spec :: "real list \<Rightarrow> nat \<Rightarrow> real" where
  "loss_spec closes i = max (closes ! (i - 1) - closes ! i) 0"

fun wilder_average_spec :: "(nat \<Rightarrow> real) \<Rightarrow> nat \<Rightarrow> real" where
  "wilder_average_spec cur 0 = (\<Sum>i = 1..13. cur i) / 13"
| "wilder_average_spec cur (Suc n) =
     (if Suc n \<le> 13 then (\<Sum>i = 1..13. cur i) / 13
      else (wilder_average_spec cur n * 13 + cur (Suc n)) / 14)"

subsection \<open>Support, resistance and price position\<close>

text \<open>
  \<open>xs.slice(-n)\<close>: the last \<open>n\<close> elements, all of them when there are fewer.
  \<open>Math.max(...xs)\<close> and \<open>Math.min(...xs)\<close>: of no argument they are \<open>-Infinity\<close> and
  \<open>Infinity\<close>, here \<open>None\<close>.
\<close>

definition slice_last :: "nat \<Rightarrow> 'a list \<Rightarrow> 'a list" where
  "slice_last n xs = drop (length xs - n) xs"

fun mathMax :: "real list \<Rightarrow> real option" where
  "mathMax [] = None"
| "mathMax (x # xs) = Some (fold max xs x)"

fun mathMin :: "real list \<Rightarrow> real option" where
  "mathMin [] = None"
| "mathMin (x # xs) = Some (fold min xs x)"

text \<open>
  The object \<open>calculateSupportResistance\<close> returns. \<open>sr_resistance = None\<close> is
  \<open>-Infinity\<close> and \<open>sr_support = None\<close> is \<open>Infinity\<close>.
\<close>

record supportResistance =
  sr_support :: "real option"
  sr_resistance :: "real option"
  sr_pricePosition :: real

text \<open>
  \<open>resistance > support\<close>: false as soon as the resistance is \<open>-Infinity\<close> or the
  support \<open>Infinity\<close>.
\<close>

definition calculateSupportResistance :: "real list \<Rightarrow> real list \<Rightarrow> real \<Rightarrow> supportResistance" where
  "calculateSupportResistance highs lows currentPrice =
     (let recentHighs = slice_last 20 highs;
          recentLows = slice_last 20 lows;
          resistance = mathMax recentHighs;
          support = mathMin recentLows;
          pricePosition =
            (case (resistance, support) of
               (Some r, Some s) \<Rightarrow>
                 if r > s then ((currentPrice - s) / (r - s) * 100) else 50
             | _ \<Rightarrow> 50)
      in \<lparr> sr_support = support, sr_resistance = resistance,
           sr_pricePosition = max 0 (min 100 pricePosition) \<rparr>)"

subsection \<open>Configuration\<close>

text \<open>
  \<open>this.config\<close>: the trading, indicator and cooldown parameters (the API address, the
  symbol and the timer intervals belong to the network and timer layer). No modelled
  method writes to it, so it is a parameter.
\<close>

record config =
  accountBalance :: real
  riskPerTrade :: real
  tp1Percent :: real
  tp2Percent :: real
  slPercent :: real
  maxPositionPercent :: real
  rsiOversold :: real
  rsiOverbought :: real
  rsiNeutralMin :: real
  rsiNeutralMax :: real
  highVolatility :: real
  trendThreshold :: real
  cooldownSeconds :: int

definition defaultConfig :: config where
  "defaultConfig = \<lparr> accountBalance = 100, riskPerTrade = 0.02, tp1Percent = 0.015,
     tp2Percent = 0.03, slPercent = 0.012, maxPositionPercent = 0.5, rsiOversold = 30,
     rsiOverbought = 70, rsiNeutralMin = 40, rsiNeutralMax = 60, highVolatility = 5,
     trendThreshold = 0.5, cooldownSeconds = 180 \<rparr>"

subsection \<open>Trend and volatility\<close>

text \<open>
  \<open>calculateTrend\<close>. \<open>reduce((a, b) => a + b)\<close> on the five and the ten last closes is
  their sum. When \<open>longAvg\<close> is zero the source divides by zero: \<open>change\<close> is Infinity
  for a positive \<open>shortAvg\<close>, which is above every threshold, -Infinity for a negative
  one, below every threshold, and NaN for zero, which no comparison accepts.
\<close>

definition calculateTrend :: "config \<Rightarrow> real list \<Rightarrow> trend" where
  "calculateTrend cfg closes =
     (if length closes < 10 then neutral
      else
        (let shortTerm = slice_last 5 closes;
             longTerm = slice_last 10 closes;
             shortAvg = sum_list shortTerm / real (length shortTerm);
             longAvg = sum_list longTerm / real (length longTerm)
         in if longAvg = 0 then
              (if shortAvg > 0 then bullish else if shortAvg < 0 then bearish else neutral)
            else
              (let change = ((shortAvg - longAvg) / longAvg) * 100
               in if change > trendThreshold cfg then bullish
                  else if change < - trendThreshold cfg then bearish
                  else neutral)))"

text \<open>
  \<open>calculateVolatility\<close>. The loop pushes the return of every index from 1 on. A close
  of zero before the last makes one of the returns a division by zero, Infinity or NaN;
  then the mean is Infinity or NaN, the squared distance of that return to the mean is
  NaN, and so are the variance and the volatility.
\<close>

definition calculateVolatility :: "real list \<Rightarrow> jsnum" where
  "calculateVolatility closes =
     (if length closes < 10 then 0
      else if \<exists>i \<in> set [1..<length closes]. closes ! (i - 1) = 0 then NaN
      else
        (let returns = map (\<lambda>i. (closes ! i - closes ! (i - 1)) / closes ! (i - 1))
                           [1..<length closes];
             mean = sum_list returns / real (length returns);
             variance = fold (\<lambda>b a. a + (b - mean) ^ 2) returns 0 / real (length returns)
         in Num (sqrt variance * sqrt 252 * 100)))"

section \<open>State\<close>

text \<open>
  Field names are global constants, so the fields of a candle, of the signal, of the
  trade-parameter object and of the support/resistance object carry the prefixes
  \<open>c_\<close>, \<open>sig_\<close>, \<open>p_\<close> and \<open>sr_\<close>; the trade's \<open>id\<close> and \<open>rsi\<close> are \<open>trade_id\<close> and
  \<open>trade_rsi\<close>, and the ticker's \<open>last\<close> is \<open>ticker_last\<close>.
\<close>

record candle =
  c_timestamp :: int
  c_open :: real
  c_high :: real
  c_low :: real
  c_close :: real
  c_volume :: real

text \<open>
  \<open>this.state.indicators\<close>. \<open>support\<close> and \<open>resistance\<close> are what
  \<open>calculateSupportResistance\<close> returned, hence options; \<open>volatility\<close> may be NaN.
\<close>

record indicators =
  rsi :: real
  trend :: trend
  volatility :: jsnum
  support :: "real option"
  resistance :: "real option"
  pricePosition :: real

definition initialIndicators :: indicators where
  "initialIndicators = \<lparr> rsi = 50, trend = neutral, volatility = 0, support = Some 0,
     resistance = Some 0, pricePosition = 50 \<rparr>"

text \<open>
  The rationale of a signal is a string the source builds by \<open>reason = ...\<close> and
  \<open>reason += ...\<close> from template literals (in Chinese). It is modelled as the list of
  the templates used, each with the numbers it interpolates:
  \<^item> \<open>RsiOversold r o t\<close>: RSI oversold (\<open>r < o\<close>), trend up or neutral;
  \<^item> \<open>NearSupport p\<close>: the price is close to the support (\<open>p\<close> percent);
  \<^item> \<open>RsiOversoldWait r\<close>: RSI oversold but the trend is down, wait for confirmation;
  \<^item> \<open>RsiOverbought r o t\<close>, \<open>NearResistance p\<close>, \<open>RsiOverboughtWait r\<close>: the same on
    the overbought side;
  \<^item> \<open>RsiNeutral r\<close>: RSI neutral, the market is balanced;
  \<^item> \<open>SupportSignal p r\<close>, \<open>ResistanceSignal p r\<close>: the price is close to the support
    or resistance and the RSI is moderate;
  \<^item> \<open>NoSignal r p\<close>: no clear signal;
  \<^item> \<open>HighVolatilityCaveat v\<close>: high volatility lowers the strength of the signal.
\<close>

datatype clause =
    RsiOversold real real trend
  | NearSupport real
  | RsiOversoldWait real
  | RsiOverbought real real trend
  | NearResistance real
  | RsiOverboughtWait real
  | RsiNeutral real
  | SupportSignal real real
  | ResistanceSignal real real
  | NoSignal real real
  | HighVolatilityCaveat jsnum

text \<open>The object \<open>analyzeMarket\<close> returns; its numbers are \<open>toFixed\<close> strings.\<close>

record signal =
  sig_action :: action
  sig_confidence :: real
  sig_reason :: "clause list"
  sig_price :: real
  sig_rsi :: real
  sig_trend :: trend
  sig_volatility :: jsnum
  sig_pricePosition :: real

text \<open>
  The object \<open>calculateTradeParams\<close> returns: \<open>tp1\<close>, \<open>tp2\<close> and \<open>sl\<close> are numbers, or
  \<open>undefined\<close> (\<open>None\<close>) for an action that is neither BUY nor SELL; \<open>riskReward\<close>,
  \<open>positionSize\<close> and \<open>positionPercent\<close> are \<open>toFixed\<close> strings, which a zero risk, a
  zero balance or an undefined level makes \<open>'Infinity'\<close> or \<open>'NaN'\<close>.
\<close>

record tradeParams =
  p_tp1 :: "real option"
  p_tp2 :: "real option"
  p_sl :: "real option"
  p_riskReward :: jsnum
  p_positionSize :: jsnum
  p_positionPercent :: jsnum

text \<open>
  The trade record of \<open>createTradeRecord\<close>. \<open>null\<close> is \<open>None\<close>; \<open>price\<close>, \<open>tp1\<close>,
  \<open>tp2\<close>, \<open>sl\<close>, \<open>positionSize\<close>, \<open>pnl\<close> and \<open>exitPrice\<close> are \<open>toFixed\<close> strings,
  of which \<open>positionSize\<close>, \<open>positionPercent\<close>, \<open>riskReward\<close> and \<open>pnl\<close> may be
  \<open>'Infinity'\<close> or \<open>'NaN'\<close>; \<open>timestamp\<close> and \<open>completedAt\<close> are the clock values whose
  ISO strings the source stores.
\<close>

record trade =
  trade_id :: string
  action :: action
  confidence :: real
  price :: real
  tp1 :: real
  tp2 :: real
  sl :: real
  positionSize :: jsnum
  positionPercent :: jsnum
  riskReward :: jsnum
  reason :: "clause list"
  trade_rsi :: real
  timestamp :: time
  status :: status
  result :: "outcome option"
  pnl :: "jsnum option"
  exitPrice :: "real option"
  completedAt :: "time option"

datatype warning = InsufficientCandles | SignalGenerationFailed

text \<open>
  \<open>this.state\<close>, \<open>this.candles\<close> and the trade objects. A trade object is shared: the
  one \<open>generateSignal\<close> creates is both \<open>state.activeTrade\<close> and an element of
  \<open>state.signalHistory\<close>, and \<open>completeTrade\<close> writes to it through the first. So
  trades live in a store \<open>objects\<close> from references to records, \<open>activeTrade\<close> and
  \<open>signalHistory\<close> hold references, and \<open>nextRef\<close> is the next unused one.

  \<open>warnings\<close> collects what the source prints with \<open>console.warn\<close> and
  \<open>console.error\<close>, the latest first; its \<open>console.log\<close> progress lines, the page
  (DOM, chart, \<open>priceData\<close>) and \<open>localStorage\<close> are not modelled.
\<close>

type_synonym ref = nat

record state =
  currentPrice :: real
  indicators :: indicators
  activeTrade :: "ref option"
  signalHistory :: "ref list"
  stats :: stats
  cooldownEnd :: "time option"
  isRunning :: bool
  isInitialized :: bool
  candles :: "candle list"
  objects :: "ref \<Rightarrow> trade"
  nextRef :: ref
  warnings :: "warning list"

section \<open>Cooldown\<close>

text \<open>\<open>now\<close> is the clock read by \<open>new Date()\<close> and \<open>Date.now()\<close>.\<close>

definition isInCooldown :: "time \<Rightarrow> state \<Rightarrow> bool" where
  "isInCooldown now s = (case cooldownEnd s of None \<Rightarrow> False | Some e \<Rightarrow> now < e)"

definition startCooldownPeriod :: "config \<Rightarrow> time \<Rightarrow> state \<Rightarrow> state" where
  "startCooldownPeriod cfg now s = s\<lparr> cooldownEnd := Some (now + cooldownSeconds cfg * 1000) \<rparr>"

section \<open>Indicator refresh\<close>

text \<open>
  \<open>calculateIndicators\<close>: with fewer than 20 candles it warns and returns; otherwise it
  writes the four indicators into \<open>state.indicators\<close>. No statement of it throws; its
  result is a sum as that of every step of \<open>generateSignal\<close> is.
\<close>

definition calculateIndicators :: "config \<Rightarrow> state \<Rightarrow> error + state" where
  "calculateIndicators cfg s =
     (if length (candles s) < 20 then Inr (s\<lparr> warnings := InsufficientCandles # warnings s \<rparr>)
      else
        (let closes = map c_close (candles s);
             highs = map c_high (candles s);
             lows = map c_low (candles s);
             sr = calculateSupportResistance highs lows (currentPrice s)
         in Inr (s\<lparr> indicators := \<lparr> rsi = calculateRSI closes,
                       trend = calculateTrend cfg closes,
                       volatility = calculateVolatility closes, support = sr_support sr,
                       resistance = sr_resistance sr,
                       pricePosition = sr_pricePosition sr \<rparr> \<rparr>)))"

section \<open>SignalAnalyzer\<close>

text \<open>
  \<open>analyzeMarket\<close>. The source assigns \<open>action\<close>, \<open>confidence\<close> and \<open>reason\<close> in three
  stages: the decision rules (from \<open>'HOLD'\<close>, \<open>0.5\<close> and \<open>''\<close>), the volatility filter, and
  the clamp. The stages are the numbered variables below. The confidence is a double
  at every stage; the numbers printed into the rationale and the signal are the doubles
  the indicators stand for. A volatility of NaN is above no threshold.
\<close>

definition analyzeMarket :: "config \<Rightarrow> state \<Rightarrow> signal" where
  "analyzeMarket cfg s =
     (let ind = indicators s;
          rsiStr = toFixed 1 (roundDouble (rsi ind));
          posStr = toFixed 1 (roundDouble (pricePosition ind));
          (action0, confidence0, reason0) =
            (if rsi ind < rsiOversold cfg then
               (if trend ind = bullish \<or> trend ind = neutral then
                  (let c = dadd 0.7 (ddiv (dsub (rsiOversold cfg) (rsi ind)) 50);
                       txt = [RsiOversold rsiStr (rsiOversold cfg) (trend ind)]
                   in if pricePosition ind < 40
                      then (BUY, dadd c 0.05, txt @ [NearSupport posStr])
                      else (BUY, c, txt))
                else (HOLD, roundDouble 0.5, [RsiOversoldWait rsiStr]))
             else if rsi ind > rsiOverbought cfg then
               (if trend ind = bearish \<or> trend ind = neutral then
                  (let c = dadd 0.7 (ddiv (dsub (rsi ind) (rsiOverbought cfg)) 50);
                       txt = [RsiOverbought rsiStr (rsiOverbought cfg) (trend ind)]
                   in if pricePosition ind > 60
                      then (SELL, dadd c 0.05, txt @ [NearResistance posStr])
                      else (SELL, c, txt))
                else (HOLD, roundDouble 0.5, [RsiOverboughtWait rsiStr]))
             else if rsi ind > rsiNeutralMin cfg \<and> rsi ind < rsiNeutralMax cfg then
               (HOLD, roundDouble 0.6, [RsiNeutral rsiStr])
             else
               (if pricePosition ind < 30 \<and> trend ind \<noteq> bearish then
                  (BUY, roundDouble 0.65, [SupportSignal posStr rsiStr])
                else if pricePosition ind > 70 \<and> trend ind \<noteq> bullish then
                  (SELL, roundDouble 0.65, [ResistanceSignal posStr rsiStr])
                else
                  (HOLD, roundDouble 0.5, [NoSignal rsiStr posStr])));
          (confidence1, reason1) =
            (if Num (highVolatility cfg) < volatility ind
             then (dmul confidence0 0.8,
                   reason0 @ [HighVolatilityCaveat (jtoFixed 1 (fl (volatility ind)))])
             else (confidence0, reason0));
          confidence2 = max (roundDouble 0.3) (min (roundDouble 0.95) confidence1)
      in \<lparr> sig_action = action0, sig_confidence = toFixed 2 confidence2,
           sig_reason = reason1, sig_price = toFixed 2 (roundDouble (currentPrice s)),
           sig_rsi = toFixed 2 (roundDouble (rsi ind)), sig_trend = trend ind,
           sig_volatility = jtoFixed 1 (fl (volatility ind)),
           sig_pricePosition = posStr \<rparr>)"

section \<open>TradeParameterCalculator\<close>

text \<open>
  \<open>calculateTradeParams(action, price, confidence)\<close>; the parameters are \<open>act\<close>,
  \<open>entry\<close> and \<open>conf\<close> here, their names being fields of the trade record. Every
  operation is one of doubles. For an action other than BUY and SELL the levels stay
  \<open>undefined\<close>, and \<open>risk\<close> and \<open>reward\<close> are NaN. \<open>reward / risk\<close> and \<open>risk / price\<close>
  divide by zero when \<open>risk\<close> is zero (which it is when \<open>price\<close> is), and the position
  percentage does when the balance is zero; the source returns the Infinity or NaN that
  results, printed by \<open>toFixed\<close>.
\<close>

definition calculateTradeParams :: "config \<Rightarrow> action \<Rightarrow> real \<Rightarrow> real \<Rightarrow> tradeParams" where
  "calculateTradeParams cfg act entry conf =
     (let levels =
            (if act = BUY
             then Some (dmul entry (dadd 1 (tp1Percent cfg)), dmul entry (dadd 1 (tp2Percent cfg)),
                        dmul entry (dsub 1 (slPercent cfg)))
             else if act = SELL
             then Some (dmul entry (dsub 1 (tp1Percent cfg)), dmul entry (dsub 1 (tp2Percent cfg)),
                        dmul entry (dadd 1 (slPercent cfg)))
             else None);
          risk = (case levels of None \<Rightarrow> NaN | Some (tp1v, tp2v, slv) \<Rightarrow> Num \<bar>dsub entry slv\<bar>);
          reward = (case levels of None \<Rightarrow> NaN | Some (tp1v, tp2v, slv) \<Rightarrow> Num \<bar>dsub tp1v entry\<bar>);
          riskRewardStr = jtoFixed 2 (fdiv reward risk);
          riskAmount = dmul (accountBalance cfg) (riskPerTrade cfg);
          size = mathMin2 (fdiv (Num riskAmount) (fdiv risk (Num entry)))
                          (Num (dmul (accountBalance cfg) (maxPositionPercent cfg)));
          percentStr = jtoFixed 1 (fmul (fdiv size (Num (accountBalance cfg))) 100)
      in \<lparr> p_tp1 = map_option (\<lambda>(tp1v, tp2v, slv). tp1v) levels,
           p_tp2 = map_option (\<lambda>(tp1v, tp2v, slv). tp2v) levels,
           p_sl = map_option (\<lambda>(tp1v, tp2v, slv). slv) levels,
           p_riskReward = riskRewardStr,
           p_positionSize = jtoFixed 2 size,
           p_positionPercent = percentStr \<rparr>)"

text \<open>
  \<open>createTradeRecord(signal)\<close>. The identifier (built from the clock and
  \<open>Math.random()\<close>) and the clock value of \<open>timestamp\<close> are parameters. The field
  \<open>symbol\<close>, a constant of the configuration, is left out. \<open>params.tp1.toFixed(2)\<close>
  throws a TypeError when the level is \<open>undefined\<close>.
\<close>

definition createTradeRecord :: "config \<Rightarrow> signal \<Rightarrow> string \<Rightarrow> time \<Rightarrow> error + trade" where
  "createTradeRecord cfg sg tid ts =
     (let params = calculateTradeParams cfg (sig_action sg) (sig_price sg) (sig_confidence sg)
      in case (p_tp1 params, p_tp2 params, p_sl params) of
           (Some tp1v, Some tp2v, Some slv) \<Rightarrow>
             Inr \<lparr> trade_id = tid, action = sig_action sg, confidence = sig_confidence sg,
                   price = sig_price sg, tp1 = toFixed 2 tp1v,
                   tp2 = toFixed 2 tp2v, sl = toFixed 2 slv,
                   positionSize = p_positionSize params,
                   positionPercent = p_positionPercent params,
                   riskReward = p_riskReward params, reason = sig_reason sg,
                   trade_rsi = sig_rsi sg, timestamp = ts, status = active, result = None,
                   pnl = None, exitPrice = None, completedAt = None \<rparr>
         | _ \<Rightarrow> Inl TypeError)"

section \<open>TradeLifecycleManager\<close>

text \<open>
  \<open>completeTrade(result, tpLevel, currentPrice)\<close>. It reads \<open>state.activeTrade\<close> and
  fails on \<open>null\<close> at the first property read. The pnl is computed with the operations
  of doubles on the numbers \<open>parseFloat\<close> reads from the trade; \<open>positionSize / entry\<close>
  divides by zero for an entry of zero, and the source goes on with the Infinity or NaN
  that results. \<open>tc\<close> is the clock read for \<open>completedAt\<close>, \<open>td\<close> the one of
  \<open>startCooldownPeriod\<close>. \<open>updateStats\<close> gets the unrounded \<open>pnl\<close>.
\<close>

definition completeTrade ::
  "config \<Rightarrow> time \<Rightarrow> time \<Rightarrow> outcome \<Rightarrow> nat \<Rightarrow> real \<Rightarrow> state \<Rightarrow> error + state" where
  "completeTrade cfg tc td res tpLevel cur s =
     (case activeTrade s of
        None \<Rightarrow> Inl TypeError
      | Some r \<Rightarrow>
          (let t = objects s r;
               size = positionSize t;
               entry = Num (price t);
               pnlv =
                 (if res = win then
                    (let tpPrice = Num (if tpLevel = 1 then tp1 t else tp2 t)
                     in if action t = BUY then fmul (fsub tpPrice entry) (fdiv size entry)
                        else fmul (fsub entry tpPrice) (fdiv size entry))
                  else
                    (let slPrice = Num (sl t)
                     in if action t = BUY then fmul (fsub slPrice entry) (fdiv size entry)
                        else fmul (fsub entry slPrice) (fdiv size entry)));
               t' = t\<lparr> status := (if res = win
                                   then (if tpLevel = 1 then hit_tp1 else hit_tp2)
                                   else hit_sl),
                       result := Some res,
                       pnl := Some (jtoFixed 2 pnlv),
                       exitPrice := Some (toFixed 2 (roundDouble cur)),
                       completedAt := Some tc \<rparr>;
               s1 = s\<lparr> objects := (objects s)(r := t') \<rparr>;
               s2 = s1\<lparr> stats := updateStats res pnlv (stats s1) \<rparr>;
               s3 = s2\<lparr> activeTrade := None \<rparr>
           in Inr (startCooldownPeriod cfg td s3)))"

text \<open>
  \<open>checkTradeConditions\<close>. The guard \<open>!activeTrade || !currentPrice\<close> returns on no
  trade and on a price of zero. The three variables \<open>triggered\<close>, \<open>result\<close> and
  \<open>tpLevel\<close> are one option here: \<open>None\<close> is \<open>triggered = false\<close>, and a stop-loss has
  level 0.
\<close>

definition checkTradeConditions :: "config \<Rightarrow> time \<Rightarrow> time \<Rightarrow> state \<Rightarrow> error + state" where
  "checkTradeConditions cfg tc td s =
     (case activeTrade s of
        None \<Rightarrow> Inr s
      | Some r \<Rightarrow>
          if currentPrice s = 0 then Inr s
          else
            (let t = objects s r;
                 current = currentPrice s;
                 triggered =
                   (if action t = BUY then
                      (if current \<ge> tp2 t then Some (win, 2)
                       else if current \<ge> tp1 t then Some (win, 1)
                       else if current \<le> sl t then Some (loss, 0)
                       else None)
                    else if action t = SELL then
                      (if current \<le> tp2 t then Some (win, 2)
                       else if current \<le> tp1 t then Some (win, 1)
                       else if current \<ge> sl t then Some (loss, 0)
                       else None)
                    else None)
             in case triggered of
                  Some (res, tpLevel) \<Rightarrow> completeTrade cfg tc td res tpLevel current s
                | None \<Rightarrow> Inr s))"

section \<open>TradingOrchestrator\<close>

record ticker =
  ticker_last :: real

definition updatePriceData :: "ticker option \<Rightarrow> state \<Rightarrow> state" where
  "updatePriceData tk s =
     (case tk of None \<Rightarrow> s | Some k \<Rightarrow> s\<lparr> currentPrice := ticker_last k \<rparr>)"

definition addToHistory :: "ref \<Rightarrow> state \<Rightarrow> state" where
  "addToHistory r s =
     (let h = r # signalHistory s
      in s\<lparr> signalHistory := (if length h > 20 then take 20 h else h) \<rparr>)"

text \<open>
  \<open>generateSignal\<close>. \<open>now\<close> is the clock read by \<open>isInCooldown\<close>; \<open>fetched\<close> is what
  \<open>await this.getTickerData()\<close> gives, a ticker or a thrown error; \<open>tid\<close> and \<open>ts\<close> go
  to \<open>createTradeRecord\<close>. The \<open>try\<close> block catches every exception and logs it with
  \<open>console.error\<close>, the state staying as the statements before the exception left it.
\<close>

definition generateSignal ::
  "config \<Rightarrow> time \<Rightarrow> error + ticker \<Rightarrow> string \<Rightarrow> time \<Rightarrow> state \<Rightarrow> error + state" where
  "generateSignal cfg now fetched tid ts s =
     (if isInCooldown now s then Inr s
      else if activeTrade s \<noteq> None then Inr s
      else
        (case fetched of
           Inl e \<Rightarrow> Inr (s\<lparr> warnings := SignalGenerationFailed # warnings s \<rparr>)
         | Inr tk \<Rightarrow>
             (case calculateIndicators cfg (updatePriceData (Some tk) s) of
                Inl e \<Rightarrow>
                  (let s1 = updatePriceData (Some tk) s
                   in Inr (s1\<lparr> warnings := SignalGenerationFailed # warnings s1 \<rparr>))
              | Inr s2 \<Rightarrow>
                  (let sg = analyzeMarket cfg s2
                   in if sig_action sg \<noteq> HOLD then
                        (case createTradeRecord cfg sg tid ts of
                           Inl e \<Rightarrow>
                             Inr (s2\<lparr> warnings := SignalGenerationFailed # warnings s2 \<rparr>)
                         | Inr t \<Rightarrow>
                             (let r = nextRef s2;
                                  s3 = s2\<lparr> objects := (objects s2)(r := t),
                                           nextRef := r + 1 \<rparr>;
                                  s4 = s3\<lparr> activeTrade := Some r \<rparr>
                              in Inr (addToHistory r s4)))
                      else Inr s2))))"

text \<open>The state the constructor builds; \<open>t0\<close> is what the unused references hold.\<close>

definition initialState :: "trade \<Rightarrow> state" where
  "initialState t0 = \<lparr> currentPrice = 0, indicators = initialIndicators, activeTrade = None,
     signalHistory = [], stats = initialStats, cooldownEnd = None, isRunning = False,
     isInitialized = False, candles = [], objects = (\<lambda>r. t0), nextRef = 0,
     warnings = [] \<rparr>"

section \<open>Example data\<close>

text \<open>
  A trade as \<open>createTradeRecord\<close> builds it under the default configuration for an
  entry of 100 (position 50, risk-reward 1.25), with the levels left open, and the state
  of a running system that holds it as its active trade, at a given current price.
\<close>

definition exampleTrade :: "action \<Rightarrow> real \<Rightarrow> real \<Rightarrow> real \<Rightarrow> trade" where
  "exampleTrade act t1 t2 stop =
     \<lparr> trade_id = ''trade_1'', action = act, confidence = 0.8, price = 100, tp1 = t1,
       tp2 = t2, sl = stop, positionSize = 50, positionPercent = 50, riskReward = Num 1.25,
       reason = [], trade_rsi = 25, timestamp = 0, status = active, result = None,
       pnl = None, exitPrice = None, completedAt = None \<rparr>"

definition tradingState :: "trade \<Rightarrow> real \<Rightarrow> state" where
  "tradingState t p =
     (initialState t)\<lparr> currentPrice := p, activeTrade := Some 0, signalHistory := [0],
                        nextRef := 1 \<rparr>"

text \<open>The trade object behind a reference after a call, if the call returned.\<close>

definition tradeAfter :: "error + state \<Rightarrow> ref \<Rightarrow> trade option" where
  "tradeAfter res r = (case res of Inl e \<Rightarrow> None | Inr s \<Rightarrow> Some (objects s r))"

text \<open>
  An idle system at a price of 100 with a given indicator snapshot, and twenty candles
  that all stand at 100.
\<close>

definition marketState :: "indicators \<Rightarrow> state" where
  "marketState ind =
     (initialState (exampleTrade BUY 101.5 103 98.8))\<lparr> currentPrice := 100, indicators := ind \<rparr>"

definition flatCandle :: candle where
  "flatCandle = \<lparr> c_timestamp = 0, c_open = 100, c_high = 100, c_low = 100, c_close = 100,
     c_volume = 1 \<rparr>"

definition flatCandles :: "candle list" where
  "flatCandles = replicate 20 flatCandle"


section \<open>Verification\<close>

subsection \<open>Doubles\<close>

lemma bitlen_eqI:
  assumes "2 ^ k \<le> m" "m < 2 ^ (k + 1)"
  shows "bitlen m = int k + 1"
proof -
  have "bitlen m \<le> int k + 1"
    using assms(2) by (simp add: bitlen_le_iff_power nat_add_distrib)
  moreover have "int k + 1 \<le> bitlen m"
  proof -
    have "nat (int k + 1) - 1 = k" by simp
    then show ?thesis
      using assms(1) by (simp only: bitlen_ge_iff_power) simp
  qed
  ultimately show ?thesis by simp
qed

lemma roundDouble_eval:
  assumes lo: "2 ^ 52 \<le> \<bar>x\<bar> * 2 ^ n" and hi: "\<bar>x\<bar> * 2 ^ n < 2 ^ 53"
    and n: "n \<le> subnormalExponent"
  shows "roundDouble x = real_of_int (roundHalfEven (x * 2 ^ n)) / 2 ^ n"
proof -
  define k where "k = subnormalExponent - n"
  define N where "N = subnormalExponent"
  have kn: "N = n + k" using n by (simp add: k_def N_def)
  have pw: "(2::real) ^ N = 2 ^ n * 2 ^ k"
    unfolding kn by (rule power_add)
  let ?y = "x * 2 ^ N"
  have ay: "\<bar>?y\<bar> = (\<bar>x\<bar> * 2 ^ n) * 2 ^ k"
    unfolding pw by (simp add: abs_mult)
  have ylo: "(2::real) ^ (52 + k) \<le> \<bar>?y\<bar>"
  proof -
    have "(2::real) ^ 52 * 2 ^ k \<le> (\<bar>x\<bar> * 2 ^ n) * 2 ^ k"
      using lo by (intro mult_right_mono) simp_all
    then show ?thesis unfolding ay power_add .
  qed
  have yhi: "\<bar>?y\<bar> < (2::real) ^ (53 + k)"
  proof -
    have "(\<bar>x\<bar> * 2 ^ n) * 2 ^ k < (2::real) ^ 53 * 2 ^ k"
      using hi by (intro mult_strict_right_mono) simp_all
    then show ?thesis unfolding ay power_add .
  qed
  have flo: "(2::int) ^ (52 + k) \<le> \<lfloor>\<bar>?y\<bar>\<rfloor>"
  proof -
    have "real_of_int (2 ^ (52 + k)) \<le> \<bar>?y\<bar>"
      using ylo by (simp only: of_int_power of_int_numeral)
    then show ?thesis by (simp only: le_floor_iff)
  qed
  have fhi: "\<lfloor>\<bar>?y\<bar>\<rfloor> < (2::int) ^ (52 + k + 1)"
  proof -
    have e: "52 + k + 1 = 53 + k" by simp
    have "\<bar>?y\<bar> < real_of_int (2 ^ (53 + k))"
      using yhi by (simp only: of_int_power of_int_numeral)
    then show ?thesis unfolding e by (simp only: floor_less_iff)
  qed
  have b: "bitlen \<lfloor>\<bar>?y\<bar>\<rfloor> = int (52 + k) + 1"
    by (rule bitlen_eqI [OF flo fhi])
  have u: "nat (bitlen \<lfloor>\<bar>?y\<bar>\<rfloor> - 53) = k"
    unfolding b by simp
  have q: "?y / 2 ^ k = x * 2 ^ n"
    unfolding pw by simp
  have r: "real_of_int z * 2 ^ k / 2 ^ N = real_of_int z / 2 ^ n" for z
    unfolding pw by simp
  show ?thesis
    unfolding roundDouble_def Let_def N_def [symmetric] u q r ..
qed

lemma roundDouble_scaled:
  "2 ^ 52 \<le> \<bar>x\<bar> * 2 ^ doubleScale x \<Longrightarrow> \<bar>x\<bar> * 2 ^ doubleScale x < 2 ^ 53 \<Longrightarrow>
   doubleScale x \<le> subnormalExponent \<Longrightarrow>
   roundDouble x = real_of_int (roundHalfEven (x * 2 ^ doubleScale x)) / 2 ^ doubleScale x"
  by (rule roundDouble_eval)

lemma roundDouble_zero: "roundDouble 0 = 0"
  by (simp add: roundDouble_def roundHalfEven_def)

lemma roundHalfEven_nonneg: "0 \<le> y \<Longrightarrow> 0 \<le> roundHalfEven y"
  by (simp add: roundHalfEven_def Let_def)

lemma roundDouble_nonneg: "0 \<le> x \<Longrightarrow> 0 \<le> roundDouble x"
  by (simp add: roundDouble_def Let_def roundHalfEven_nonneg)

lemmas double_eval = roundDouble_scaled roundDouble_zero doubleScale_def compute_bitlen
  roundHalfEven_def subnormalExponent_def dadd_def dsub_def dmul_def ddiv_def Let_def

subsection \<open>Special values\<close>

lemma Num_plus: "Num x + Num y = Num (x + y)"
  by (simp add: plus_jsnum_def jsAdd_def)

lemma numeral_jsnum: "(numeral n :: jsnum) = Num (numeral n)"
proof (induction n)
  case One
  show ?case by (simp add: one_jsnum_def)
next
  case (Bit0 n)
  have "(numeral (num.Bit0 n) :: jsnum) = numeral n + numeral n" by (fact numeral.simps)
  also have "\<dots> = Num (numeral n) + Num (numeral n)"
    by (rule arg_cong2 [OF Bit0.IH Bit0.IH])
  also have "\<dots> = Num (numeral n + numeral n)" by (rule Num_plus)
  also have "numeral n + numeral n = (numeral (num.Bit0 n) :: real)"
    by (fact numeral.simps [symmetric])
  finally show ?case .
next
  case (Bit1 n)
  have "(numeral (num.Bit1 n) :: jsnum) = numeral n + numeral n + 1" by (fact numeral.simps)
  also have "\<dots> = Num (numeral n) + Num (numeral n) + Num 1"
    unfolding one_jsnum_def by (rule arg_cong2 [OF arg_cong2 [OF Bit1.IH Bit1.IH] refl])
  also have "\<dots> = Num (numeral n + numeral n + 1)" by (simp only: Num_plus)
  also have "numeral n + numeral n + 1 = (numeral (num.Bit1 n) :: real)"
    by (fact numeral.simps [symmetric])
  finally show ?case .
qed

lemmas jsnum_eval = numeral_jsnum zero_jsnum_def one_jsnum_def plus_jsnum_def minus_jsnum_def
  uminus_jsnum_def times_jsnum_def divide_jsnum_def abs_jsnum_def less_jsnum_def
  less_eq_jsnum_def jsNeg_def jsAdd_def jsMul_def jsDiv_def jsAbs_def jsLess_def
  fl_def fadd_def fsub_def fmul_def fdiv_def mathMin2_def jtoFixed_def

subsection \<open>Statistics\<close>

text \<open>
  Claim C9. From the zeroed statistics, three wins of 1, 2 and 3 and then a loss of -1
  leave a current streak of 0, a best streak of 3 and a total of 5. In general every
  resolution adds one to \<open>totalTrades\<close> and the signed pnl to \<open>totalPnL\<close>; a win adds
  one to \<open>winningTrades\<close> and to \<open>currentStreak\<close>, and \<open>bestStreak\<close> is the running
  maximum; a loss resets \<open>currentStreak\<close> to 0 and leaves the other two.
\<close>

theorem updateStats_streaks:
  "(let s = updateStats loss (- 1)
              (updateStats win 3 (updateStats win 2 (updateStats win 1 initialStats)))
    in currentStreak s = 0 \<and> bestStreak s = 3 \<and> totalPnL s = 5)
   \<and> totalTrades (updateStats res p st) = totalTrades st + 1
   \<and> totalPnL (updateStats res p st) = totalPnL st + p
   \<and> (res = win \<longrightarrow>
        winningTrades (updateStats res p st) = winningTrades st + 1
        \<and> currentStreak (updateStats res p st) = currentStreak st + 1
        \<and> bestStreak (updateStats res p st) = max (bestStreak st) (currentStreak st + 1))
   \<and> (res = loss \<longrightarrow>
        winningTrades (updateStats res p st) = winningTrades st
        \<and> currentStreak (updateStats res p st) = 0
        \<and> bestStreak (updateStats res p st) = bestStreak st)"
proof -
  have scenario:
    "(let s = updateStats loss (- 1)
              (updateStats win 3 (updateStats win 2 (updateStats win 1 initialStats)))
      in currentStreak s = 0 \<and> bestStreak s = 3 \<and> totalPnL s = 5)"
    by (simp add: updateStats_def Let_def initialStats_def jsnum_eval)
  have general:
    "totalTrades (updateStats res p st) = totalTrades st + 1
     \<and> totalPnL (updateStats res p st) = totalPnL st + p
     \<and> (res = win \<longrightarrow>
          winningTrades (updateStats res p st) = winningTrades st + 1
          \<and> currentStreak (updateStats res p st) = currentStreak st + 1
          \<and> bestStreak (updateStats res p st) = max (bestStreak st) (currentStreak st + 1))
     \<and> (res = loss \<longrightarrow>
          winningTrades (updateStats res p st) = winningTrades st
          \<and> currentStreak (updateStats res p st) = 0
          \<and> bestStreak (updateStats res p st) = bestStreak st)"
    by (cases res) (simp_all add: updateStats_def Let_def max_def)
  from scenario general show ?thesis by (rule conjI)
qed

theorem updateStats_streaks_witness:
  "winningTrades (updateStats win 2 (updateStats win 1 initialStats)) = 2
   \<and> currentStreak (updateStats win 2 (updateStats win 1 initialStats)) = 2
   \<and> bestStreak (updateStats win 2 (updateStats win 1 initialStats)) = 2
   \<and> winningTrades (updateStats loss (- 1) (updateStats win 1 initialStats)) = 1
   \<and> currentStreak (updateStats loss (- 1) (updateStats win 1 initialStats)) = 0
   \<and> bestStreak (updateStats loss (- 1) (updateStats win 1 initialStats)) = 1"
proof -
  have first: "winningTrades (updateStats win 1 initialStats) = 1
      \<and> currentStreak (updateStats win 1 initialStats) = 1
      \<and> bestStreak (updateStats win 1 initialStats) = 1"
    using updateStats_streaks [of win 1 initialStats] by (simp add: initialStats_def)
  from first updateStats_streaks [of win 2 "updateStats win 1 initialStats"]
    updateStats_streaks [of loss "- 1" "updateStats win 1 initialStats"]
  show ?thesis by simp
qed

subsection \<open>Trade conditions\<close>

text \<open>
  Claim C10. When the current price is 0, \<open>checkTradeConditions\<close> returns the state as
  it is, whatever the active trade: the trade object, its status and the statistics
  are untouched, although 0 is below the stop-loss of any BUY trade.
\<close>

theorem checkTradeConditions_zero_price:
  "currentPrice s = 0 \<Longrightarrow> checkTradeConditions cfg tc td s = Inr s"
  by (simp add: checkTradeConditions_def split: option.split)

theorem checkTradeConditions_zero_price_witness:
  "currentPrice (tradingState (exampleTrade BUY 101.5 103 98.8) 0) = 0
   \<and> activeTrade (tradingState (exampleTrade BUY 101.5 103 98.8) 0) = Some 0
   \<and> checkTradeConditions defaultConfig 1000 1001 (tradingState (exampleTrade BUY 101.5 103 98.8) 0)
       = Inr (tradingState (exampleTrade BUY 101.5 103 98.8) 0)"
proof -
  have z: "currentPrice (tradingState (exampleTrade BUY 101.5 103 98.8) 0) = 0"
    by (simp add: tradingState_def)
  from z checkTradeConditions_zero_price [OF z, of defaultConfig 1000 1001]
  show ?thesis by (simp add: tradingState_def)
qed

subsection \<open>RSI\<close>

lemma rsiSeedLoop_sums:
  "1 \<le> i \<Longrightarrow> i \<le> 14 \<Longrightarrow> rsiSeedLoop closes i (g, l) =
     (g + (\<Sum>k = i..13. gain_spec closes k), l + (\<Sum>k = i..13. loss_spec closes k))"
proof (induction closes i "(g, l)" arbitrary: g l rule: rsiSeedLoop.induct)
  case (1 closes i gains losses)
  show ?case
  proof (cases "i < 14")
    case True
    then have split: "{i..13} = insert i {i + 1..13}" by auto
    have fin: "i \<notin> {i + 1..13}" by simp
    show ?thesis
      using True 1 
      apply (subst rsiSeedLoop.simps)
      apply (simp add: Let_def split sum.insert[OF _ fin] gain_spec_def loss_spec_def max_def)
      done
  next
    case False
    with 1 have "i = 14" by simp
    then show ?thesis by (subst rsiSeedLoop.simps) simp
  qed
qed

lemma wilder_average_spec_step:
  "14 \<le> i \<Longrightarrow> wilder_average_spec cur i = (wilder_average_spec cur (i - 1) * 13 + cur i) / 14"
  by (cases i) simp_all

lemma wilder_average_spec_13: "wilder_average_spec cur 13 = (\<Sum>i = 1..13. cur i) / 13"
proof -
  have "wilder_average_spec cur (Suc 12) = (\<Sum>i = 1..13. cur i) / 13"
    by (simp only: wilder_average_spec.simps) simp
  then show ?thesis by simp
qed

lemma rsiSmoothLoop_wilder:
  "14 \<le> i \<Longrightarrow> i \<le> length closes \<Longrightarrow>
   rsiSmoothLoop closes i
     (wilder_average_spec (gain_spec closes) (i - 1), wilder_average_spec (loss_spec closes) (i - 1)) =
     (wilder_average_spec (gain_spec closes) (length closes - 1),
      wilder_average_spec (loss_spec closes) (length closes - 1))"
proof (induction "length closes - i" arbitrary: i)
  case 0
  then have "i = length closes" by simp
  then show ?case by (subst rsiSmoothLoop.simps) simp
next
  case (Suc d)
  then have lt: "i < length closes" by simp
  have g: "(if closes ! i - closes ! (i - 1) > 0 then closes ! i - closes ! (i - 1) else 0) = gain_spec closes i"
    by (simp add: gain_spec_def max_def)
  have l: "(if closes ! i - closes ! (i - 1) < 0 then \<bar>closes ! i - closes ! (i - 1)\<bar> else 0) = loss_spec closes i"
    by (simp add: loss_spec_def max_def)
  have step: "rsiSmoothLoop closes i
     (wilder_average_spec (gain_spec closes) (i - 1), wilder_average_spec (loss_spec closes) (i - 1)) =
     rsiSmoothLoop closes (i + 1)
     (wilder_average_spec (gain_spec closes) i, wilder_average_spec (loss_spec closes) i)"
    using lt Suc.prems(1)
    by (subst rsiSmoothLoop.simps) (simp only: Let_def g l wilder_average_spec_step [symmetric] if_True)
  have "d = length closes - (i + 1)" using Suc.hyps(2) by simp
  from Suc.hyps(1) [OF this] Suc.prems lt
  have "rsiSmoothLoop closes (i + 1)
     (wilder_average_spec (gain_spec closes) (i + 1 - 1), wilder_average_spec (loss_spec closes) (i + 1 - 1)) =
     (wilder_average_spec (gain_spec closes) (length closes - 1),
      wilder_average_spec (loss_spec closes) (length closes - 1))"
    by simp
  with step show ?case by simp
qed


lemma calculateRSI_wilder_form:
  assumes len: "14 \<le> length closes"
  shows "calculateRSI closes =
     (if wilder_average_spec (loss_spec closes) (length closes - 1) = 0 then 100
      else 100 - 100 / (1 + wilder_average_spec (gain_spec closes) (length closes - 1)
                            / wilder_average_spec (loss_spec closes) (length closes - 1)))"
proof -
  have seed: "rsiSeedLoop closes 1 (0, 0) =
      ((\<Sum>k = 1..13. gain_spec closes k), (\<Sum>k = 1..13. loss_spec closes k))"
    using rsiSeedLoop_sums [of 1 closes 0 0] by simp
  have smooth: "rsiSmoothLoop closes 14
      ((\<Sum>k = 1..13. gain_spec closes k) / 13, (\<Sum>k = 1..13. loss_spec closes k) / 13) =
     (wilder_average_spec (gain_spec closes) (length closes - 1),
      wilder_average_spec (loss_spec closes) (length closes - 1))"
    using rsiSmoothLoop_wilder [of 14 closes] len by (simp add: wilder_average_spec_13)
  have notshort: "\<not> length closes < 14" using len by simp
  show ?thesis
    unfolding calculateRSI_def
    by (simp only: notshort if_False seed smooth prod.case Let_def)
qed

lemma loss_spec_sorted:
  assumes "sorted closes" "i < length closes"
  shows "loss_spec closes i = 0"
proof -
  have "closes ! (i - 1) \<le> closes ! i"
    using assms by (simp add: sorted_iff_nth_mono)
  then show ?thesis by (simp add: loss_spec_def max_def)
qed

lemma wilder_average_spec_zero:
  "(\<forall>i \<le> max n 13. cur i = 0) \<Longrightarrow> wilder_average_spec cur n = 0"
  by (induction n) auto

text \<open>
  Claim C4. \<open>calculateRSI\<close> is the 14-period Wilder smoothing: 50 on fewer than 14
  closes; otherwise, with the averages of the gains and of the losses seeded by the
  deltas 1 to 13 divided by 13 and updated from index 14 on by
  \<open>avg = (avg * 13 + current) / 14\<close>, it is 100 when the final average loss is zero
  and \<open>100 - 100 / (1 + avgGain / avgLoss)\<close> otherwise. So it is 100 on every rising
  sequence of at least 14 closes.
\<close>

theorem calculateRSI_wilder:
  "(length closes < 14 \<longrightarrow> calculateRSI closes = 50)
   \<and> (14 \<le> length closes \<longrightarrow>
        calculateRSI closes =
          (if wilder_average_spec (loss_spec closes) (length closes - 1) = 0 then 100
           else 100 - 100 / (1 + wilder_average_spec (gain_spec closes) (length closes - 1)
                                 / wilder_average_spec (loss_spec closes) (length closes - 1))))
   \<and> (14 \<le> length closes \<and> sorted closes \<longrightarrow> calculateRSI closes = 100)"
proof (intro conjI impI)
  assume "length closes < 14"
  then show "calculateRSI closes = 50" by (simp add: calculateRSI_def)
next
  assume "14 \<le> length closes"
  then show "calculateRSI closes =
      (if wilder_average_spec (loss_spec closes) (length closes - 1) = 0 then 100
       else 100 - 100 / (1 + wilder_average_spec (gain_spec closes) (length closes - 1)
                             / wilder_average_spec (loss_spec closes) (length closes - 1)))"
    by (rule calculateRSI_wilder_form)
next
  assume a: "14 \<le> length closes \<and> sorted closes"
  then have "\<forall>i \<le> max (length closes - 1) 13. loss_spec closes i = 0"
    by (auto intro!: loss_spec_sorted)
  then have "wilder_average_spec (loss_spec closes) (length closes - 1) = 0"
    by (rule wilder_average_spec_zero)
  with a show "calculateRSI closes = 100"
    by (simp add: calculateRSI_wilder_form)
qed

theorem calculateRSI_wilder_witness:
  "length [100, 101, 102 :: real] < 14
   \<and> calculateRSI [100, 101, 102] = 50
   \<and> 14 \<le> length [100, 101, 99, 102, 98, 103, 97, 104, 96, 105, 95, 106, 94, 107 :: real]
   \<and> (if wilder_average_spec
            (loss_spec [100, 101, 99, 102, 98, 103, 97, 104, 96, 105, 95, 106, 94, 107]) 13 = 0
       then 100
       else 100 - 100 / (1 + wilder_average_spec
            (gain_spec [100, 101, 99, 102, 98, 103, 97, 104, 96, 105, 95, 106, 94, 107]) 13
          / wilder_average_spec
            (loss_spec [100, 101, 99, 102, 98, 103, 97, 104, 96, 105, 95, 106, 94, 107]) 13))
       = 700 / 13
   \<and> sorted [100, 101, 102, 103, 104, 105, 106, 107, 108, 109, 110, 111, 112, 113, 114 :: real]
   \<and> calculateRSI [100, 101, 102, 103, 104, 105, 106, 107, 108, 109, 110, 111, 112, 113, 114] = 100"
proof -
  let ?zigzag = "[100, 101, 99, 102, 98, 103, 97, 104, 96, 105, 95, 106, 94, 107 :: real]"
  let ?rising = "[100, 101, 102, 103, 104, 105, 106, 107, 108, 109, 110, 111, 112, 113, 114 :: real]"
  have short: "length [100, 101, 102 :: real] < 14" by simp
  have r1: "calculateRSI [100, 101, 102] = 50"
    using calculateRSI_wilder [of "[100, 101, 102]"] short by blast
  have len: "14 \<le> length ?zigzag" by simp
  have n: "length ?zigzag - 1 = 13" by simp
  have v: "calculateRSI ?zigzag = 700 / 13"
    by (simp add: calculateRSI_def rsiSeedLoop.simps rsiSmoothLoop.simps Let_def)
  have "calculateRSI ?zigzag =
      (if wilder_average_spec (loss_spec ?zigzag) (length ?zigzag - 1) = 0 then 100
       else 100 - 100 / (1 + wilder_average_spec (gain_spec ?zigzag) (length ?zigzag - 1)
                             / wilder_average_spec (loss_spec ?zigzag) (length ?zigzag - 1)))"
    using calculateRSI_wilder [of ?zigzag] len by blast
  then have r2: "(if wilder_average_spec (loss_spec ?zigzag) 13 = 0 then 100
       else 100 - 100 / (1 + wilder_average_spec (gain_spec ?zigzag) 13
                             / wilder_average_spec (loss_spec ?zigzag) 13)) = 700 / 13"
    unfolding n v by (rule sym)
  have srt: "sorted ?rising" by simp
  have len3: "14 \<le> length ?rising" by simp
  have r3: "calculateRSI ?rising = 100"
    using calculateRSI_wilder [of ?rising] srt len3 by blast
  from short r1 len r2 srt r3 show ?thesis by (intro conjI)
qed

subsection \<open>Price position\<close>

text \<open>
  Claim C6. The price position \<open>calculateSupportResistance\<close> returns is within
  [0, 100] for all inputs: it is \<open>(currentPrice - support) / (resistance - support) * 100\<close>
  clamped to [0, 100] when the resistance is above the support, and 50 when it is not
  (also when they are equal, and when a slice is empty); every pair of a support and a
  resistance arises, from one-element slices.
\<close>

theorem pricePosition_range:
  "0 \<le> sr_pricePosition (calculateSupportResistance highs lows cp)
   \<and> sr_pricePosition (calculateSupportResistance highs lows cp) \<le> 100
   \<and> (\<forall>res sup.
        sr_resistance (calculateSupportResistance highs lows cp) = Some res
        \<and> sr_support (calculateSupportResistance highs lows cp) = Some sup \<longrightarrow>
        (res > sup \<longrightarrow>
           sr_pricePosition (calculateSupportResistance highs lows cp) =
             max 0 (min 100 ((cp - sup) / (res - sup) * 100)))
        \<and> (res \<le> sup \<longrightarrow> sr_pricePosition (calculateSupportResistance highs lows cp) = 50))
   \<and> (sr_resistance (calculateSupportResistance highs lows cp) = None
        \<or> sr_support (calculateSupportResistance highs lows cp) = None \<longrightarrow>
        sr_pricePosition (calculateSupportResistance highs lows cp) = 50)
   \<and> sr_resistance (calculateSupportResistance [r] [s] cp) = Some r
   \<and> sr_support (calculateSupportResistance [r] [s] cp) = Some s"
  by (auto simp add: calculateSupportResistance_def Let_def slice_last_def
      split: option.splits)

theorem pricePosition_range_witness:
  "sr_resistance (calculateSupportResistance [110, 120] [90, 80] 130) = Some 120
   \<and> sr_support (calculateSupportResistance [110, 120] [90, 80] 130) = Some 80
   \<and> (80::real) < 120
   \<and> sr_pricePosition (calculateSupportResistance [110, 120] [90, 80] 130) = 100
   \<and> sr_pricePosition (calculateSupportResistance [110, 120] [90, 80] 90) = 25
   \<and> sr_resistance (calculateSupportResistance [100] [100] 100) = Some 100
   \<and> sr_support (calculateSupportResistance [100] [100] 100) = Some 100
   \<and> sr_pricePosition (calculateSupportResistance [100] [100] 100) = 50
   \<and> sr_resistance (calculateSupportResistance [] [] 100) = None
   \<and> sr_pricePosition (calculateSupportResistance [] [] 100) = 50"
proof -
  have a: "sr_resistance (calculateSupportResistance [110, 120] [90, 80] cp) = Some 120
      \<and> sr_support (calculateSupportResistance [110, 120] [90, 80] cp) = Some 80" for cp
    by (simp add: calculateSupportResistance_def Let_def slice_last_def)
  have b: "sr_resistance (calculateSupportResistance [] [] 100) = None"
    by (simp add: calculateSupportResistance_def Let_def slice_last_def)
  from a [of 130] a [of 90] b
    pricePosition_range [of "[110, 120]" "[90, 80]" 130 100 100]
    pricePosition_range [of "[110, 120]" "[90, 80]" 90 100 100]
    pricePosition_range [of "[100]" "[100]" 100 100 100]
    pricePosition_range [of "[]" "[]" 100 100 100]
  show ?thesis by simp
qed


subsection \<open>Resolution of a trade\<close>

lemma completeTrade_result:
  assumes a: "activeTrade s = Some r"
  shows "\<exists>s'. completeTrade cfg tc td res lvl cur s = Inr s'
     \<and> status (objects s' r) =
         (if res = win then (if lvl = 1 then hit_tp1 else hit_tp2) else hit_sl)
     \<and> result (objects s' r) = Some res
     \<and> activeTrade s' = None"
  using a by (simp add: completeTrade_def Let_def startCooldownPeriod_def)

text \<open>
  Claim C1, amended. For every active trade and every current price other than 0,
  \<open>checkTradeConditions\<close> resolves a BUY trade as a win at TP2 when the price is at or
  above \<open>tp2\<close>, else as a win at TP1 when it is at or above \<open>tp1\<close>, else as a loss when
  it is at or below \<open>sl\<close>; a SELL trade is mirrored. TP2 is tested first. (At a current
  price of 0 the check returns before it compares anything.)
\<close>

theorem checkTradeConditions_levels:
  assumes a: "activeTrade s = Some r"
    and p: "currentPrice s \<noteq> 0"
  shows "\<exists>s'. checkTradeConditions cfg tc td s = Inr s'
     \<and> (action (objects s r) = BUY \<longrightarrow>
          (currentPrice s \<ge> tp2 (objects s r) \<longrightarrow>
             status (objects s' r) = hit_tp2 \<and> result (objects s' r) = Some win)
          \<and> (\<not> currentPrice s \<ge> tp2 (objects s r) \<and> currentPrice s \<ge> tp1 (objects s r) \<longrightarrow>
             status (objects s' r) = hit_tp1 \<and> result (objects s' r) = Some win)
          \<and> (\<not> currentPrice s \<ge> tp2 (objects s r) \<and> \<not> currentPrice s \<ge> tp1 (objects s r)
               \<and> currentPrice s \<le> sl (objects s r) \<longrightarrow>
             status (objects s' r) = hit_sl \<and> result (objects s' r) = Some loss))
     \<and> (action (objects s r) = SELL \<longrightarrow>
          (currentPrice s \<le> tp2 (objects s r) \<longrightarrow>
             status (objects s' r) = hit_tp2 \<and> result (objects s' r) = Some win)
          \<and> (\<not> currentPrice s \<le> tp2 (objects s r) \<and> currentPrice s \<le> tp1 (objects s r) \<longrightarrow>
             status (objects s' r) = hit_tp1 \<and> result (objects s' r) = Some win)
          \<and> (\<not> currentPrice s \<le> tp2 (objects s r) \<and> \<not> currentPrice s \<le> tp1 (objects s r)
               \<and> currentPrice s \<ge> sl (objects s r) \<longrightarrow>
             status (objects s' r) = hit_sl \<and> result (objects s' r) = Some loss))"
proof -
  let ?t = "objects s r"
  let ?c = "currentPrice s"
  consider
      (b2) "action ?t = BUY" "?c \<ge> tp2 ?t"
    | (b1) "action ?t = BUY" "\<not> ?c \<ge> tp2 ?t" "?c \<ge> tp1 ?t"
    | (bs) "action ?t = BUY" "\<not> ?c \<ge> tp2 ?t" "\<not> ?c \<ge> tp1 ?t" "?c \<le> sl ?t"
    | (bn) "action ?t = BUY" "\<not> ?c \<ge> tp2 ?t" "\<not> ?c \<ge> tp1 ?t" "\<not> ?c \<le> sl ?t"
    | (s2) "action ?t = SELL" "?c \<le> tp2 ?t"
    | (s1) "action ?t = SELL" "\<not> ?c \<le> tp2 ?t" "?c \<le> tp1 ?t"
    | (ss) "action ?t = SELL" "\<not> ?c \<le> tp2 ?t" "\<not> ?c \<le> tp1 ?t" "?c \<ge> sl ?t"
    | (sn) "action ?t = SELL" "\<not> ?c \<le> tp2 ?t" "\<not> ?c \<le> tp1 ?t" "\<not> ?c \<ge> sl ?t"
    | (h) "action ?t = HOLD"
    by (cases "action ?t") auto
  then show ?thesis
  proof cases
    case b2
    have "checkTradeConditions cfg tc td s = completeTrade cfg tc td win 2 ?c s"
      using a p b2 by (simp add: checkTradeConditions_def Let_def)
    with completeTrade_result [OF a, of cfg tc td win 2 ?c] b2 show ?thesis by auto
  next
    case b1
    have "checkTradeConditions cfg tc td s = completeTrade cfg tc td win 1 ?c s"
      using a p b1 by (simp add: checkTradeConditions_def Let_def)
    with completeTrade_result [OF a, of cfg tc td win 1 ?c] b1 show ?thesis by auto
  next
    case bs
    have "checkTradeConditions cfg tc td s = completeTrade cfg tc td loss 0 ?c s"
      using a p bs by (simp add: checkTradeConditions_def Let_def)
    with completeTrade_result [OF a, of cfg tc td loss 0 ?c] bs show ?thesis by auto
  next
    case bn
    have "checkTradeConditions cfg tc td s = Inr s"
      using a p bn by (simp add: checkTradeConditions_def Let_def)
    with bn show ?thesis by auto
  next
    case s2
    have "checkTradeConditions cfg tc td s = completeTrade cfg tc td win 2 ?c s"
      using a p s2 by (simp add: checkTradeConditions_def Let_def)
    with completeTrade_result [OF a, of cfg tc td win 2 ?c] s2 show ?thesis by auto
  next
    case s1
    have "checkTradeConditions cfg tc td s = completeTrade cfg tc td win 1 ?c s"
      using a p s1 by (simp add: checkTradeConditions_def Let_def)
    with completeTrade_result [OF a, of cfg tc td win 1 ?c] s1 show ?thesis by auto
  next
    case ss
    have "checkTradeConditions cfg tc td s = completeTrade cfg tc td loss 0 ?c s"
      using a p ss by (simp add: checkTradeConditions_def Let_def)
    with completeTrade_result [OF a, of cfg tc td loss 0 ?c] ss show ?thesis by auto
  next
    case sn
    have "checkTradeConditions cfg tc td s = Inr s"
      using a p sn by (simp add: checkTradeConditions_def Let_def)
    with sn show ?thesis by auto
  next
    case h
    have "checkTradeConditions cfg tc td s = Inr s"
      using a p h by (simp add: checkTradeConditions_def Let_def)
    with h show ?thesis by auto
  qed
qed

theorem checkTradeConditions_levels_witness:
  "activeTrade (tradingState (exampleTrade BUY 101.5 103 98.8) 103.5) = Some 0
   \<and> currentPrice (tradingState (exampleTrade BUY 101.5 103 98.8) 103.5) \<noteq> 0
   \<and> action (objects (tradingState (exampleTrade BUY 101.5 103 98.8) 103.5) 0) = BUY
   \<and> currentPrice (tradingState (exampleTrade BUY 101.5 103 98.8) 103.5)
        \<ge> tp2 (objects (tradingState (exampleTrade BUY 101.5 103 98.8) 103.5) 0)
   \<and> map_option status
        (tradeAfter (checkTradeConditions defaultConfig 1000 1001
           (tradingState (exampleTrade BUY 101.5 103 98.8) 103.5)) 0) = Some hit_tp2
   \<and> map_option result
        (tradeAfter (checkTradeConditions defaultConfig 1000 1001
           (tradingState (exampleTrade BUY 101.5 103 98.8) 103.5)) 0) = Some (Some win)
   \<and> price (objects (tradingState ((exampleTrade SELL 0 0 0)\<lparr> price := 0 \<rparr>) 0.01) 0) = 0
   \<and> currentPrice (tradingState ((exampleTrade SELL 0 0 0)\<lparr> price := 0 \<rparr>) 0.01)
        \<ge> sl (objects (tradingState ((exampleTrade SELL 0 0 0)\<lparr> price := 0 \<rparr>) 0.01) 0)
   \<and> map_option status
        (tradeAfter (checkTradeConditions defaultConfig 1000 1001
           (tradingState ((exampleTrade SELL 0 0 0)\<lparr> price := 0 \<rparr>) 0.01)) 0) = Some hit_sl
   \<and> map_option result
        (tradeAfter (checkTradeConditions defaultConfig 1000 1001
           (tradingState ((exampleTrade SELL 0 0 0)\<lparr> price := 0 \<rparr>) 0.01)) 0) = Some (Some loss)"
proof -
  let ?s = "tradingState (exampleTrade BUY 101.5 103 98.8) 103.5"
  let ?z = "tradingState ((exampleTrade SELL 0 0 0)\<lparr> price := 0 \<rparr>) 0.01"
  have a: "activeTrade ?s = Some 0" by (simp add: tradingState_def)
  have p: "currentPrice ?s \<noteq> 0" by (simp add: tradingState_def)
  have b: "action (objects ?s 0) = BUY"
    by (simp add: tradingState_def initialState_def exampleTrade_def)
  have g: "currentPrice ?s \<ge> tp2 (objects ?s 0)"
    by (simp add: tradingState_def initialState_def exampleTrade_def)
  from checkTradeConditions_levels [OF a p, of defaultConfig 1000 1001] b g
  obtain s' where r: "checkTradeConditions defaultConfig 1000 1001 ?s = Inr s'"
    and st: "status (objects s' 0) = hit_tp2" and rs: "result (objects s' 0) = Some win"
    by blast
  from r st rs have first:
    "map_option status (tradeAfter (checkTradeConditions defaultConfig 1000 1001 ?s) 0)
       = Some hit_tp2"
    "map_option result (tradeAfter (checkTradeConditions defaultConfig 1000 1001 ?s) 0)
       = Some (Some win)"
    by (simp_all add: tradeAfter_def)
  have za: "activeTrade ?z = Some 0" by (simp add: tradingState_def)
  have zp: "currentPrice ?z \<noteq> 0" by (simp add: tradingState_def)
  have ze: "price (objects ?z 0) = 0"
    by (simp add: tradingState_def initialState_def exampleTrade_def)
  have zb: "action (objects ?z 0) = SELL"
    by (simp add: tradingState_def initialState_def exampleTrade_def)
  have zg: "currentPrice ?z \<ge> sl (objects ?z 0)"
    "\<not> currentPrice ?z \<le> tp2 (objects ?z 0)" "\<not> currentPrice ?z \<le> tp1 (objects ?z 0)"
    by (simp_all add: tradingState_def initialState_def exampleTrade_def)
  from checkTradeConditions_levels [OF za zp, of defaultConfig 1000 1001] zb zg
  obtain z' where zr: "checkTradeConditions defaultConfig 1000 1001 ?z = Inr z'"
    and zst: "status (objects z' 0) = hit_sl" and zrs: "result (objects z' 0) = Some loss"
    by blast
  from zr zst zrs have second:
    "map_option status (tradeAfter (checkTradeConditions defaultConfig 1000 1001 ?z) 0)
       = Some hit_sl"
    "map_option result (tradeAfter (checkTradeConditions defaultConfig 1000 1001 ?z) 0)
       = Some (Some loss)"
    by (simp_all add: tradeAfter_def)
  from a p b g first ze zg(1) second show ?thesis by (intro conjI)
qed

theorem checkTradeConditions_levels_counterexample:
  "activeTrade (tradingState (exampleTrade BUY 101.5 103 98.8) 0) = Some 0
   \<and> action (objects (tradingState (exampleTrade BUY 101.5 103 98.8) 0) 0) = BUY
   \<and> currentPrice (tradingState (exampleTrade BUY 101.5 103 98.8) 0)
        < tp1 (objects (tradingState (exampleTrade BUY 101.5 103 98.8) 0) 0)
   \<and> currentPrice (tradingState (exampleTrade BUY 101.5 103 98.8) 0)
        \<le> sl (objects (tradingState (exampleTrade BUY 101.5 103 98.8) 0) 0)
   \<and> map_option status
        (tradeAfter (checkTradeConditions defaultConfig 1000 1001
           (tradingState (exampleTrade BUY 101.5 103 98.8) 0)) 0) = Some active
   \<and> map_option result
        (tradeAfter (checkTradeConditions defaultConfig 1000 1001
           (tradingState (exampleTrade BUY 101.5 103 98.8) 0)) 0) = Some None"
  by (simp add: checkTradeConditions_def tradingState_def initialState_def exampleTrade_def
      tradeAfter_def)

text \<open>
  Claim C3, amended. Resolving an active trade records the pnl
  \<open>(level - entry) * (positionSize / entry)\<close> for a BUY and
  \<open>(entry - level) * (positionSize / entry)\<close> otherwise, computed in the arithmetic of
  doubles and printed with two decimals, where \<open>level\<close> is the trade's own \<open>tp1\<close>, \<open>tp2\<close>
  or \<open>sl\<close> according to the outcome, not the recorded exit price, which is the current
  price printed with two decimals. (For an entry price of 0 the pnl is NaN or infinite.)
  Resolution also sets status, result and completion time, updates the statistics with
  the unrounded pnl, clears the active-trade slot and starts the cooldown, which lasts
  the configured number of seconds.
\<close>

theorem completeTrade_resolution:
  assumes a: "activeTrade s = Some r"
  shows "\<exists>s'. completeTrade cfg tc td res lvl cur s = Inr s'
     \<and> (let t = objects s r;
             level = Num (if res = win then (if lvl = 1 then tp1 t else tp2 t) else sl t);
             entry = Num (price t);
             pnlv = (if action t = BUY then fmul (fsub level entry) (fdiv (positionSize t) entry)
                     else fmul (fsub entry level) (fdiv (positionSize t) entry))
         in pnl (objects s' r) = Some (jtoFixed 2 pnlv)
            \<and> stats s' = updateStats res pnlv (stats s))
     \<and> exitPrice (objects s' r) = Some (toFixed 2 (roundDouble cur))
     \<and> status (objects s' r) =
         (if res = win then (if lvl = 1 then hit_tp1 else hit_tp2) else hit_sl)
     \<and> result (objects s' r) = Some res
     \<and> completedAt (objects s' r) = Some tc
     \<and> activeTrade s' = None
     \<and> cooldownEnd s' = Some (td + cooldownSeconds cfg * 1000)
     \<and> (\<forall>now. isInCooldown now s' = (now < td + cooldownSeconds cfg * 1000))"
  using a
  by (simp add: completeTrade_def Let_def startCooldownPeriod_def isInCooldown_def)

theorem completeTrade_resolution_witness:
  "activeTrade (tradingState ((exampleTrade BUY 8.12 8.24 7.9)\<lparr> price := 8 \<rparr>) 7.9) = Some 0
   \<and> map_option pnl
        (tradeAfter (completeTrade defaultConfig 1000 1001 loss 0 7.9
           (tradingState ((exampleTrade BUY 8.12 8.24 7.9)\<lparr> price := 8 \<rparr>) 7.9)) 0)
       = Some (Some (Num (- 0.62)))
   \<and> map_option exitPrice
        (tradeAfter (completeTrade defaultConfig 1000 1001 loss 0 7.9
           (tradingState ((exampleTrade BUY 8.12 8.24 7.9)\<lparr> price := 8 \<rparr>) 7.9)) 0)
       = Some (Some 7.9)
   \<and> map_option status
        (tradeAfter (completeTrade defaultConfig 1000 1001 loss 0 7.9
           (tradingState ((exampleTrade BUY 8.12 8.24 7.9)\<lparr> price := 8 \<rparr>) 7.9)) 0)
       = Some hit_sl
   \<and> activeTrade (tradingState ((exampleTrade SELL 0 0 0)\<lparr> price := 0 \<rparr>) 0.01) = Some 0
   \<and> map_option pnl
        (tradeAfter (completeTrade defaultConfig 1000 1001 loss 0 0.01
           (tradingState ((exampleTrade SELL 0 0 0)\<lparr> price := 0 \<rparr>) 0.01)) 0)
       = Some (Some NaN)"
proof -
  let ?s = "tradingState ((exampleTrade BUY 8.12 8.24 7.9)\<lparr> price := 8 \<rparr>) 7.9"
  let ?z = "tradingState ((exampleTrade SELL 0 0 0)\<lparr> price := 0 \<rparr>) 0.01"
  have a: "activeTrade ?s = Some 0" by (simp add: tradingState_def)
  have t: "objects ?s 0 = (exampleTrade BUY 8.12 8.24 7.9)\<lparr> price := 8 \<rparr>"
    by (simp add: tradingState_def initialState_def)
  from completeTrade_resolution [OF a, of defaultConfig 1000 1001 loss 0 "7.9"]
  obtain s' where r: "completeTrade defaultConfig 1000 1001 loss 0 7.9 ?s = Inr s'"
    and pn: "pnl (objects s' 0) = Some (jtoFixed 2 (fmul (fsub (Num 7.9) (Num 8)) (fdiv 50 (Num 8))))"
    and ex: "exitPrice (objects s' 0) = Some (toFixed 2 (roundDouble 7.9))"
    and st: "status (objects s' 0) = hit_sl"
    unfolding Let_def t by (auto simp add: exampleTrade_def)
  have pv: "jtoFixed 2 (fmul (fsub (Num 7.9) (Num 8)) (fdiv 50 (Num 8))) = Num (- 0.62)"
    by (simp add: jsnum_eval double_eval toFixed_def)
  have ev: "toFixed 2 (roundDouble 7.9) = 7.9"
    by (simp add: double_eval toFixed_def)
  from r pn ex st have first:
    "map_option pnl (tradeAfter (completeTrade defaultConfig 1000 1001 loss 0 7.9 ?s) 0)
       = Some (Some (Num (- 0.62)))"
    "map_option exitPrice (tradeAfter (completeTrade defaultConfig 1000 1001 loss 0 7.9 ?s) 0)
       = Some (Some 7.9)"
    "map_option status (tradeAfter (completeTrade defaultConfig 1000 1001 loss 0 7.9 ?s) 0)
       = Some hit_sl"
    unfolding pv ev by (simp_all add: tradeAfter_def)
  have za: "activeTrade ?z = Some 0" by (simp add: tradingState_def)
  have zt: "objects ?z 0 = (exampleTrade SELL 0 0 0)\<lparr> price := 0 \<rparr>"
    by (simp add: tradingState_def initialState_def)
  from completeTrade_resolution [OF za, of defaultConfig 1000 1001 loss 0 "0.01"]
  obtain z' where zr: "completeTrade defaultConfig 1000 1001 loss 0 0.01 ?z = Inr z'"
    and zpn: "pnl (objects z' 0) = Some (jtoFixed 2 (fmul (fsub (Num 0) (Num 0)) (fdiv 50 (Num 0))))"
    unfolding Let_def zt by (auto simp add: exampleTrade_def)
  have zv: "jtoFixed 2 (fmul (fsub (Num 0) (Num 0)) (fdiv 50 (Num 0))) = NaN"
    by (simp add: jsnum_eval double_eval)
  from zr zpn have second:
    "map_option pnl (tradeAfter (completeTrade defaultConfig 1000 1001 loss 0 0.01 ?z) 0)
       = Some (Some NaN)"
    unfolding zv by (simp add: tradeAfter_def)
  from a first za second show ?thesis by (intro conjI)
qed

theorem completeTrade_resolution_counterexample:
  "map_option pnl
     (tradeAfter (checkTradeConditions defaultConfig 1000 1001
        (tradingState (exampleTrade BUY 101.5 103 98.8) 103.5)) 0) = Some (Some (Num 1.5))
   \<and> map_option exitPrice
     (tradeAfter (checkTradeConditions defaultConfig 1000 1001
        (tradingState (exampleTrade BUY 101.5 103 98.8) 103.5)) 0) = Some (Some 103.5)
   \<and> jtoFixed 2 (fmul (fsub (Num 103.5) (Num (price (exampleTrade BUY 101.5 103 98.8))))
                      (fdiv (positionSize (exampleTrade BUY 101.5 103 98.8))
                            (Num (price (exampleTrade BUY 101.5 103 98.8)))))
      = Num 1.75"
proof -
  let ?s = "tradingState (exampleTrade BUY 101.5 103 98.8) 103.5"
  have run: "checkTradeConditions defaultConfig 1000 1001 ?s
      = completeTrade defaultConfig 1000 1001 win 2 103.5 ?s"
    by (simp add: checkTradeConditions_def tradingState_def initialState_def exampleTrade_def
        Let_def)
  have recorded: "map_option pnl (tradeAfter (completeTrade defaultConfig 1000 1001 win 2 103.5 ?s) 0)
      = Some (Some (jtoFixed 2 (fmul (fsub (Num 103) (Num 100)) (fdiv 50 (Num 100)))))"
    "map_option exitPrice (tradeAfter (completeTrade defaultConfig 1000 1001 win 2 103.5 ?s) 0)
      = Some (Some (toFixed 2 (roundDouble 103.5)))"
    by (simp_all add: completeTrade_def tradingState_def initialState_def exampleTrade_def
        tradeAfter_def startCooldownPeriod_def Let_def)
  have pv: "jtoFixed 2 (fmul (fsub (Num 103) (Num 100)) (fdiv 50 (Num 100))) = Num 1.5"
    by (simp add: jsnum_eval double_eval toFixed_def)
  have ev: "toFixed 2 (roundDouble 103.5) = 103.5"
    by (simp add: double_eval toFixed_def)
  have fields: "price (exampleTrade BUY 101.5 103 98.8) = 100"
    "positionSize (exampleTrade BUY 101.5 103 98.8) = 50"
    by (simp_all add: exampleTrade_def)
  have claimed: "jtoFixed 2 (fmul (fsub (Num 103.5) (Num 100)) (fdiv 50 (Num 100))) = Num 1.75"
    by (simp add: jsnum_eval double_eval toFixed_def)
  from recorded [unfolded pv ev] claimed show ?thesis
    unfolding run fields by (intro conjI)
qed


subsection \<open>Calls in the wrong state\<close>

lemma generateSignal_error:
  "generateSignal cfg now fetched tid ts s = Inl e \<Longrightarrow> False"
  by (simp add: generateSignal_def Let_def split: if_splits sum.splits)

lemma completeTrade_error:
  "completeTrade cfg tc td res lvl cur s = Inl e \<Longrightarrow> e = TypeError"
  by (simp add: completeTrade_def Let_def split: option.splits)

lemma checkTradeConditions_error:
  "checkTradeConditions cfg tc td s = Inl e \<Longrightarrow> False"
  by (simp add: checkTradeConditions_def completeTrade_def Let_def
      split: option.splits if_splits prod.splits)

text \<open>
  Claim C2, amended. No call fails with an InvalidStateError. \<open>generateSignal\<close> on a
  state with an active trade returns normally and leaves the state as it is (no trade is
  opened, no error is raised); \<open>checkTradeConditions\<close> on a state with no active trade
  does the same; \<open>completeTrade\<close> itself, called with no active trade, fails with a
  TypeError.
\<close>

theorem wrong_state_calls:
  "(activeTrade s \<noteq> None \<longrightarrow> generateSignal cfg now fetched tid ts s = Inr s)
   \<and> (activeTrade s = None \<longrightarrow>
        checkTradeConditions cfg tc td s = Inr s
        \<and> completeTrade cfg tc td res lvl cur s = Inl TypeError)
   \<and> generateSignal cfg now fetched tid ts s \<noteq> Inl InvalidStateError
   \<and> checkTradeConditions cfg tc td s \<noteq> Inl InvalidStateError
   \<and> completeTrade cfg tc td res lvl cur s \<noteq> Inl InvalidStateError"
proof (intro conjI impI)
  assume "activeTrade s \<noteq> None"
  then show "generateSignal cfg now fetched tid ts s = Inr s"
    by (simp add: generateSignal_def)
next
  assume "activeTrade s = None"
  then show "checkTradeConditions cfg tc td s = Inr s"
    by (simp add: checkTradeConditions_def)
next
  assume "activeTrade s = None"
  then show "completeTrade cfg tc td res lvl cur s = Inl TypeError"
    by (simp add: completeTrade_def)
next
  show "generateSignal cfg now fetched tid ts s \<noteq> Inl InvalidStateError"
    using generateSignal_error [of cfg now fetched tid ts s InvalidStateError] by auto
next
  show "checkTradeConditions cfg tc td s \<noteq> Inl InvalidStateError"
    using checkTradeConditions_error [of cfg tc td s InvalidStateError] by auto
next
  show "completeTrade cfg tc td res lvl cur s \<noteq> Inl InvalidStateError"
    using completeTrade_error [of cfg tc td res lvl cur s InvalidStateError] by auto
qed

theorem wrong_state_calls_witness:
  "activeTrade (tradingState (exampleTrade SELL 98.5 97 101.2) 99) \<noteq> None
   \<and> generateSignal defaultConfig 2000 (Inl FetchError) ''trade_2'' 2000
        (tradingState (exampleTrade SELL 98.5 97 101.2) 99)
      = Inr (tradingState (exampleTrade SELL 98.5 97 101.2) 99)
   \<and> activeTrade (initialState (exampleTrade SELL 98.5 97 101.2)) = None
   \<and> checkTradeConditions defaultConfig 2000 2001 (initialState (exampleTrade SELL 98.5 97 101.2))
      = Inr (initialState (exampleTrade SELL 98.5 97 101.2))
   \<and> completeTrade defaultConfig 2000 2001 win 1 98
        (initialState (exampleTrade SELL 98.5 97 101.2)) = Inl TypeError"
proof -
  have a: "activeTrade (tradingState (exampleTrade SELL 98.5 97 101.2) 99) \<noteq> None"
    by (simp add: tradingState_def)
  have n: "activeTrade (initialState (exampleTrade SELL 98.5 97 101.2)) = None"
    by (simp add: initialState_def)
  from a n
    wrong_state_calls [of "tradingState (exampleTrade SELL 98.5 97 101.2) 99" defaultConfig
      2000 "Inl FetchError" "''trade_2''" 2000 2000 2001 win 1 98]
    wrong_state_calls [of "initialState (exampleTrade SELL 98.5 97 101.2)" defaultConfig
      2000 "Inl FetchError" "''trade_2''" 2000 2000 2001 win 1 98]
  show ?thesis by blast
qed

theorem wrong_state_calls_counterexample:
  "activeTrade (tradingState (exampleTrade BUY 101.5 103 98.8) 100) = Some 0
   \<and> generateSignal defaultConfig 2000 (Inr \<lparr> ticker_last = 100 \<rparr>) ''trade_2'' 2000
        (tradingState (exampleTrade BUY 101.5 103 98.8) 100)
      = Inr (tradingState (exampleTrade BUY 101.5 103 98.8) 100)
   \<and> activeTrade (initialState (exampleTrade BUY 101.5 103 98.8)) = None
   \<and> checkTradeConditions defaultConfig 2000 2001 (initialState (exampleTrade BUY 101.5 103 98.8))
      = Inr (initialState (exampleTrade BUY 101.5 103 98.8))"
  by (simp add: generateSignal_def checkTradeConditions_def tradingState_def initialState_def
      isInCooldown_def)

subsection \<open>Rounding\<close>

lemma toFixed_nonneg: "0 \<le> x \<Longrightarrow> 0 \<le> toFixed d x"
  by (simp add: toFixed_def sgn_real_def)

lemma toFixed_pos_iff:
  assumes "0 \<le> x"
  shows "0 < toFixed 2 x \<longleftrightarrow> 1 / 200 \<le> x"
proof -
  have fl: "0 < \<lfloor>x * 100 + 1 / 2\<rfloor> \<longleftrightarrow> 1 \<le> x * 100 + 1 / 2"
    by linarith
  show ?thesis
  proof (cases "x = 0")
    case True
    then show ?thesis by (simp add: toFixed_def)
  next
    case False
    with assms have "0 < x" by simp
    then show ?thesis
      using fl by (simp add: toFixed_def zero_less_divide_iff field_simps)
  qed
qed

lemma toFixed_mono_nonneg:
  assumes "0 \<le> x" "x \<le> y"
  shows "toFixed d x \<le> toFixed d y"
proof (cases "x = 0")
  case True
  with assms toFixed_nonneg [of y d] show ?thesis by (simp add: toFixed_def)
next
  case False
  with assms have px: "0 < x" and py: "0 < y" by simp_all
  have "\<lfloor>x * 10 ^ d + 1 / 2\<rfloor> \<le> \<lfloor>y * 10 ^ d + 1 / 2\<rfloor>"
    using assms by (intro floor_mono) (simp add: mult_right_mono)
  then have "real_of_int \<lfloor>x * 10 ^ d + 1 / 2\<rfloor> / 10 ^ d \<le> real_of_int \<lfloor>y * 10 ^ d + 1 / 2\<rfloor> / 10 ^ d"
    by (simp add: divide_right_mono)
  with px py show ?thesis by (simp add: toFixed_def)
qed

lemma roundDouble_clamp_bounds:
  "roundDouble 0.3 = 5404319552844595 / 18014398509481984"
  "roundDouble 0.95 = 4278419646001971 / 4503599627370496"
  by (simp_all add: double_eval)

lemma toFixed_clamp_range:
  "0.3 \<le> toFixed 2 (max (roundDouble 0.3) (min (roundDouble 0.95) x))
   \<and> toFixed 2 (max (roundDouble 0.3) (min (roundDouble 0.95) x)) \<le> 0.95"
proof -
  let ?c = "max (roundDouble 0.3) (min (roundDouble 0.95) x)"
  have lo: "toFixed 2 (roundDouble 0.3) = 0.3" and hi: "toFixed 2 (roundDouble 0.95) = 0.95"
    unfolding roundDouble_clamp_bounds by (simp_all add: toFixed_def)
  have "toFixed 2 (roundDouble 0.3) \<le> toFixed 2 ?c"
    unfolding roundDouble_clamp_bounds by (rule toFixed_mono_nonneg) simp_all
  moreover have "toFixed 2 ?c \<le> toFixed 2 (roundDouble 0.95)"
    unfolding roundDouble_clamp_bounds by (rule toFixed_mono_nonneg) (simp_all add: max_def min_def)
  ultimately show ?thesis unfolding lo hi by (rule conjI)
qed

lemma fdiv_nonneg:
  assumes a: "0 \<le> a" and b: "0 \<le> b"
  shows "fdiv (Num a) (Num b) =
     (if roundDouble b = 0 then (if roundDouble a = 0 then NaN else PosInf)
      else Num (roundDouble (roundDouble a / roundDouble b)))"
  using roundDouble_nonneg [OF a] roundDouble_nonneg [OF b]
  by (simp add: fdiv_def fl_def divide_jsnum_def jsDiv_def)

lemma riskReward_sign:
  assumes a: "0 \<le> a" and b: "0 \<le> b"
  shows "\<not> jtoFixed 2 (fdiv (Num a) (Num b)) < 0"
    and "0 < jtoFixed 2 (fdiv (Num a) (Num b)) \<longleftrightarrow> Num (1 / 200) \<le> fdiv (Num a) (Num b)"
proof -
  let ?q = "roundDouble (roundDouble a / roundDouble b)"
  have q: "0 \<le> ?q"
    using roundDouble_nonneg [OF a] roundDouble_nonneg [OF b]
    by (intro roundDouble_nonneg) simp
  show "\<not> jtoFixed 2 (fdiv (Num a) (Num b)) < 0"
    unfolding fdiv_nonneg [OF a b] using toFixed_nonneg [OF q, of 2]
    by (simp add: jtoFixed_def less_jsnum_def jsLess_def zero_jsnum_def)
  show "0 < jtoFixed 2 (fdiv (Num a) (Num b)) \<longleftrightarrow> Num (1 / 200) \<le> fdiv (Num a) (Num b)"
    unfolding fdiv_nonneg [OF a b] using toFixed_pos_iff [OF q]
    by (auto simp add: jtoFixed_def less_jsnum_def less_eq_jsnum_def jsLess_def zero_jsnum_def)
qed

subsection \<open>Trade parameters\<close>

text \<open>
  Claim C5, amended. For an action BUY or SELL, \<open>calculateTradeParams\<close> returns, computed
  in doubles, \<open>tp1 = E * (1 + tp1Pct)\<close>, \<open>tp2 = E * (1 + tp2Pct)\<close>, \<open>sl = E * (1 - slPct)\<close>
  for a BUY (the signs flipped for a SELL). Its \<open>riskReward\<close> is \<open>|tp1 - E| / |E - sl|\<close>,
  computed in doubles and then rounded to two decimals, so it is never negative, and it
  is positive exactly when the computed ratio is at least 0.005. Its \<open>positionSize\<close> is
  \<open>min (balance * riskPerTrade / (|E - sl| / E)) (balance * maxPositionFraction)\<close>,
  computed in doubles and then rounded to two decimals. Where a division is by zero
  the values are the Infinity or NaN of the doubles.
\<close>

theorem calculateTradeParams_levels:
  assumes act: "act = BUY \<or> act = SELL"
  shows "\<exists>tp1v tp2v slv.
       p_tp1 (calculateTradeParams cfg act entry conf) = Some tp1v
     \<and> p_tp2 (calculateTradeParams cfg act entry conf) = Some tp2v
     \<and> p_sl (calculateTradeParams cfg act entry conf) = Some slv
     \<and> tp1v = (if act = BUY then dmul entry (dadd 1 (tp1Percent cfg))
               else dmul entry (dsub 1 (tp1Percent cfg)))
     \<and> tp2v = (if act = BUY then dmul entry (dadd 1 (tp2Percent cfg))
               else dmul entry (dsub 1 (tp2Percent cfg)))
     \<and> slv = (if act = BUY then dmul entry (dsub 1 (slPercent cfg))
              else dmul entry (dadd 1 (slPercent cfg)))
     \<and> p_riskReward (calculateTradeParams cfg act entry conf) =
         jtoFixed 2 (fdiv (Num \<bar>dsub tp1v entry\<bar>) (Num \<bar>dsub entry slv\<bar>))
     \<and> \<not> p_riskReward (calculateTradeParams cfg act entry conf) < 0
     \<and> (0 < p_riskReward (calculateTradeParams cfg act entry conf) \<longleftrightarrow>
          Num (1 / 200) \<le> fdiv (Num \<bar>dsub tp1v entry\<bar>) (Num \<bar>dsub entry slv\<bar>))
     \<and> p_positionSize (calculateTradeParams cfg act entry conf) =
         jtoFixed 2
           (mathMin2 (fdiv (Num (dmul (accountBalance cfg) (riskPerTrade cfg)))
                           (fdiv (Num \<bar>dsub entry slv\<bar>) (Num entry)))
                     (Num (dmul (accountBalance cfg) (maxPositionPercent cfg))))"
proof -
  let ?p = "calculateTradeParams cfg act entry conf"
  define tp1v where
    "tp1v = (if act = BUY then dmul entry (dadd 1 (tp1Percent cfg))
             else dmul entry (dsub 1 (tp1Percent cfg)))"
  define tp2v where
    "tp2v = (if act = BUY then dmul entry (dadd 1 (tp2Percent cfg))
             else dmul entry (dsub 1 (tp2Percent cfg)))"
  define slv where
    "slv = (if act = BUY then dmul entry (dsub 1 (slPercent cfg))
            else dmul entry (dadd 1 (slPercent cfg)))"
  have levels:
    "(if act = BUY
      then Some (dmul entry (dadd 1 (tp1Percent cfg)), dmul entry (dadd 1 (tp2Percent cfg)),
                 dmul entry (dsub 1 (slPercent cfg)))
      else if act = SELL
      then Some (dmul entry (dsub 1 (tp1Percent cfg)), dmul entry (dsub 1 (tp2Percent cfg)),
                 dmul entry (dadd 1 (slPercent cfg)))
      else None) = Some (tp1v, tp2v, slv)"
    using act by (auto simp add: tp1v_def tp2v_def slv_def)
  have sel: "p_tp1 ?p = Some tp1v" "p_tp2 ?p = Some tp2v" "p_sl ?p = Some slv"
    "p_riskReward ?p = jtoFixed 2 (fdiv (Num \<bar>dsub tp1v entry\<bar>) (Num \<bar>dsub entry slv\<bar>))"
    "p_positionSize ?p =
       jtoFixed 2
         (mathMin2 (fdiv (Num (dmul (accountBalance cfg) (riskPerTrade cfg)))
                         (fdiv (Num \<bar>dsub entry slv\<bar>) (Num entry)))
                   (Num (dmul (accountBalance cfg) (maxPositionPercent cfg))))"
    unfolding calculateTradeParams_def levels by (simp_all add: Let_def)
  have reward: "0 \<le> \<bar>dsub tp1v entry\<bar>" and risk: "0 \<le> \<bar>dsub entry slv\<bar>"
    by simp_all
  have nonneg: "\<not> p_riskReward ?p < 0"
    unfolding sel by (rule riskReward_sign(1) [OF reward risk])
  have pos: "0 < p_riskReward ?p \<longleftrightarrow>
      Num (1 / 200) \<le> fdiv (Num \<bar>dsub tp1v entry\<bar>) (Num \<bar>dsub entry slv\<bar>)"
    unfolding sel by (rule riskReward_sign(2) [OF reward risk])
  from sel nonneg pos tp1v_def tp2v_def slv_def show ?thesis by blast
qed

theorem calculateTradeParams_levels_witness:
  "(BUY = BUY \<or> BUY = SELL)
   \<and> map_option (toFixed 2) (p_tp1 (calculateTradeParams defaultConfig BUY 100 0.8)) = Some 101.5
   \<and> map_option (toFixed 2) (p_tp2 (calculateTradeParams defaultConfig BUY 100 0.8)) = Some 103
   \<and> map_option (toFixed 2) (p_sl (calculateTradeParams defaultConfig BUY 100 0.8)) = Some 98.8
   \<and> p_riskReward (calculateTradeParams defaultConfig BUY 100 0.8) = Num 1.25
   \<and> p_positionSize (calculateTradeParams defaultConfig BUY 100 0.8) = Num 50
   \<and> p_riskReward (calculateTradeParams
         (defaultConfig\<lparr> tp1Percent := 0.0005, slPercent := 0.1 \<rparr>) BUY 100 0.8) = Num 0
   \<and> p_positionSize (calculateTradeParams
         (defaultConfig\<lparr> accountBalance := 0 \<rparr>) BUY 100 0.8) = Num 0
   \<and> p_riskReward (calculateTradeParams defaultConfig SELL 0 0.8) = NaN
   \<and> p_positionSize (calculateTradeParams defaultConfig SELL 0 0.8) = NaN"
proof -
  have act: "BUY = BUY \<or> BUY = SELL" by simp
  have sell: "SELL = BUY \<or> SELL = SELL" by simp
  from calculateTradeParams_levels [OF act, of defaultConfig 100 "0.8"]
  obtain tp1v tp2v slv
    where s1: "p_tp1 (calculateTradeParams defaultConfig BUY 100 0.8) = Some tp1v"
      and s2: "p_tp2 (calculateTradeParams defaultConfig BUY 100 0.8) = Some tp2v"
      and s3: "p_sl (calculateTradeParams defaultConfig BUY 100 0.8) = Some slv"
      and t1: "tp1v = dmul 100 (dadd 1 (tp1Percent defaultConfig))"
      and t2: "tp2v = dmul 100 (dadd 1 (tp2Percent defaultConfig))"
      and t3: "slv = dmul 100 (dsub 1 (slPercent defaultConfig))"
      and rr: "p_riskReward (calculateTradeParams defaultConfig BUY 100 0.8) =
         jtoFixed 2 (fdiv (Num \<bar>dsub tp1v 100\<bar>) (Num \<bar>dsub 100 slv\<bar>))"
      and ps: "p_positionSize (calculateTradeParams defaultConfig BUY 100 0.8) =
         jtoFixed 2
           (mathMin2 (fdiv (Num (dmul (accountBalance defaultConfig) (riskPerTrade defaultConfig)))
                           (fdiv (Num \<bar>dsub 100 slv\<bar>) (Num 100)))
                     (Num (dmul (accountBalance defaultConfig) (maxPositionPercent defaultConfig))))"
    by auto
  have v1: "tp1v = 7142427534032895 / 70368744177664"
    unfolding t1 by (simp add: defaultConfig_def double_eval)
  have v2: "tp2v = 103"
    unfolding t2 by (simp add: defaultConfig_def double_eval)
  have v3: "slv = 6952431924753203 / 70368744177664"
    unfolding t3 by (simp add: defaultConfig_def double_eval)
  have reward: "\<bar>dsub (7142427534032895 / 70368744177664) 100\<bar>
      = 105553116266495 / 70368744177664"
    by (simp add: double_eval)
  have risk: "\<bar>dsub 100 (6952431924753203 / 70368744177664)\<bar>
      = 84442493013197 / 70368744177664"
    by (simp add: double_eval)
  have ratio: "fdiv (Num (105553116266495 / 70368744177664))
                    (Num (84442493013197 / 70368744177664))
      = Num (5629499534213053 / 4503599627370496)"
    by (simp add: jsnum_eval double_eval)
  have share: "fdiv (Num (84442493013197 / 70368744177664)) (Num 100)
      = Num (3458764513820549 / 288230376151711744)"
    by (simp add: jsnum_eval double_eval)
  have amount: "dmul (accountBalance defaultConfig) (riskPerTrade defaultConfig) = 2"
    "dmul (accountBalance defaultConfig) (maxPositionPercent defaultConfig) = 50"
    by (simp_all add: defaultConfig_def double_eval)
  have bound: "fdiv (Num 2) (Num (3458764513820549 / 288230376151711744))
      = Num (733007751850665 / 4398046511104)"
    by (simp add: jsnum_eval double_eval)
  have f1: "map_option (toFixed 2) (p_tp1 (calculateTradeParams defaultConfig BUY 100 0.8))
      = Some 101.5"
    unfolding s1 v1 by (simp add: toFixed_def)
  have f2: "map_option (toFixed 2) (p_tp2 (calculateTradeParams defaultConfig BUY 100 0.8))
      = Some 103"
    unfolding s2 v2 by (simp add: toFixed_def)
  have f3: "map_option (toFixed 2) (p_sl (calculateTradeParams defaultConfig BUY 100 0.8))
      = Some 98.8"
    unfolding s3 v3 by (simp add: toFixed_def)
  have f4: "p_riskReward (calculateTradeParams defaultConfig BUY 100 0.8) = Num 1.25"
    unfolding rr v1 v3 reward risk ratio by (simp add: jtoFixed_def toFixed_def)
  have f5: "p_positionSize (calculateTradeParams defaultConfig BUY 100 0.8) = Num 50"
    unfolding ps v3 risk share amount bound
    by (simp add: jtoFixed_def toFixed_def mathMin2_def less_jsnum_def jsLess_def)
  let ?tie = "defaultConfig\<lparr> tp1Percent := 0.0005, slPercent := 0.1 \<rparr>"
  from calculateTradeParams_levels [OF act, of ?tie 100 "0.8"]
  have tr: "p_riskReward (calculateTradeParams ?tie BUY 100 0.8) =
         jtoFixed 2 (fdiv (Num \<bar>dsub (dmul 100 (dadd 1 (tp1Percent ?tie))) 100\<bar>)
                          (Num \<bar>dsub 100 (dmul 100 (dsub 1 (slPercent ?tie)))\<bar>))"
    by auto
  have tv1: "dmul 100 (dadd 1 (tp1Percent ?tie)) = 7040392854975283 / 70368744177664"
    by (simp add: defaultConfig_def double_eval)
  have tv3: "dmul 100 (dsub 1 (slPercent ?tie)) = 90"
    by (simp add: defaultConfig_def double_eval)
  have treward: "\<bar>dsub (7040392854975283 / 70368744177664) 100\<bar>
      = 3518437208883 / 70368744177664"
    by (simp add: double_eval)
  have trisk: "\<bar>dsub 100 90\<bar> = 10"
    by (simp add: double_eval)
  have tratio: "fdiv (Num (3518437208883 / 70368744177664)) (Num 10)
      = Num (5764607523033907 / 1152921504606846976)"
    by (simp add: jsnum_eval double_eval)
  have f6: "p_riskReward (calculateTradeParams ?tie BUY 100 0.8) = Num 0"
    unfolding tr tv1 tv3 treward trisk tratio by (simp add: jtoFixed_def toFixed_def)
  let ?broke = "defaultConfig\<lparr> accountBalance := 0 \<rparr>"
  from calculateTradeParams_levels [OF act, of ?broke 100 "0.8"]
  have bs: "p_positionSize (calculateTradeParams ?broke BUY 100 0.8) =
         jtoFixed 2
           (mathMin2 (fdiv (Num (dmul (accountBalance ?broke) (riskPerTrade ?broke)))
                           (fdiv (Num \<bar>dsub 100 (dmul 100 (dsub 1 (slPercent ?broke)))\<bar>) (Num 100)))
                     (Num (dmul (accountBalance ?broke) (maxPositionPercent ?broke))))"
    by auto
  have bv3: "dmul 100 (dsub 1 (slPercent ?broke)) = 6952431924753203 / 70368744177664"
    by (simp add: defaultConfig_def double_eval)
  have bamount: "dmul (accountBalance ?broke) (riskPerTrade ?broke) = 0"
    "dmul (accountBalance ?broke) (maxPositionPercent ?broke) = 0"
    by (simp_all add: defaultConfig_def double_eval)
  have bbound: "fdiv (Num 0) (Num (3458764513820549 / 288230376151711744)) = Num 0"
    by (simp add: jsnum_eval double_eval)
  have f7: "p_positionSize (calculateTradeParams ?broke BUY 100 0.8) = Num 0"
    unfolding bs bv3 risk share bamount bbound
    by (simp add: jtoFixed_def toFixed_def mathMin2_def less_jsnum_def jsLess_def)
  from calculateTradeParams_levels [OF sell, of defaultConfig 0 "0.8"]
  have zr: "p_riskReward (calculateTradeParams defaultConfig SELL 0 0.8) =
         jtoFixed 2 (fdiv (Num \<bar>dsub (dmul 0 (dsub 1 (tp1Percent defaultConfig))) 0\<bar>)
                          (Num \<bar>dsub 0 (dmul 0 (dadd 1 (slPercent defaultConfig)))\<bar>))"
    and zs: "p_positionSize (calculateTradeParams defaultConfig SELL 0 0.8) =
         jtoFixed 2
           (mathMin2 (fdiv (Num (dmul (accountBalance defaultConfig) (riskPerTrade defaultConfig)))
                           (fdiv (Num \<bar>dsub 0 (dmul 0 (dadd 1 (slPercent defaultConfig)))\<bar>) (Num 0)))
                     (Num (dmul (accountBalance defaultConfig) (maxPositionPercent defaultConfig))))"
    by auto
  have zv: "dmul 0 x = 0" for x
    by (simp add: dmul_def roundDouble_zero)
  have zd: "dsub 0 0 = 0"
    by (simp add: dsub_def roundDouble_zero)
  have zq: "fdiv (Num 0) (Num 0) = NaN"
    by (simp add: jsnum_eval roundDouble_zero)
  have zn: "fdiv a NaN = NaN" for a
    by (cases a) (simp_all add: jsnum_eval)
  have f8: "p_riskReward (calculateTradeParams defaultConfig SELL 0 0.8) = NaN"
    unfolding zr zv zd abs_zero zq by (simp add: jtoFixed_def)
  have f9: "p_positionSize (calculateTradeParams defaultConfig SELL 0 0.8) = NaN"
    unfolding zs zv zd abs_zero zq zn by (simp add: jtoFixed_def mathMin2_def)
  from act f1 f2 f3 f4 f5 f6 f7 f8 f9 show ?thesis by (intro conjI)
qed

theorem calculateTradeParams_levels_counterexample:
  "map_option (toFixed 2)
       (p_tp1 (calculateTradeParams (defaultConfig\<lparr> tp1Percent := 0.0003, slPercent := 0.07 \<rparr>)
                 BUY 100 0.8)) = Some 100.03
   \<and> p_sl (calculateTradeParams (defaultConfig\<lparr> tp1Percent := 0.0003, slPercent := 0.07 \<rparr>)
              BUY 100 0.8) = Some 93
   \<and> p_riskReward (calculateTradeParams (defaultConfig\<lparr> tp1Percent := 0.0003, slPercent := 0.07 \<rparr>)
              BUY 100 0.8) = Num 0
   \<and> p_positionSize (calculateTradeParams (defaultConfig\<lparr> tp1Percent := 0.0003, slPercent := 0.07 \<rparr>)
              BUY 100 0.8) = Num 28.57
   \<and> \<bar>100.03 - 100\<bar> / \<bar>100 - 93\<bar> = (3 / 700 :: real)
   \<and> min (accountBalance defaultConfig * riskPerTrade defaultConfig / (\<bar>100 - 93\<bar> / 100))
          (accountBalance defaultConfig * maxPositionPercent defaultConfig) = (200 / 7 :: real)"
proof -
  let ?cfg = "defaultConfig\<lparr> tp1Percent := 0.0003, slPercent := 0.07 \<rparr>"
  have sel: "p_tp1 (calculateTradeParams ?cfg BUY 100 0.8) = Some (dmul 100 (dadd 1 0.0003))"
    "p_sl (calculateTradeParams ?cfg BUY 100 0.8) = Some (dmul 100 (dsub 1 0.07))"
    "p_riskReward (calculateTradeParams ?cfg BUY 100 0.8) =
       jtoFixed 2 (fdiv (Num \<bar>dsub (dmul 100 (dadd 1 0.0003)) 100\<bar>)
                        (Num \<bar>dsub 100 (dmul 100 (dsub 1 0.07))\<bar>))"
    "p_positionSize (calculateTradeParams ?cfg BUY 100 0.8) =
       jtoFixed 2
         (mathMin2 (fdiv (Num (dmul 100 0.02))
                         (fdiv (Num \<bar>dsub 100 (dmul 100 (dsub 1 0.07))\<bar>) (Num 100)))
                   (Num (dmul 100 0.5)))"
    by (simp_all add: calculateTradeParams_def defaultConfig_def Let_def)
  have v1: "dmul 100 (dadd 1 0.0003) = 3519492740045865 / 35184372088832"
    by (simp add: double_eval)
  have v3: "dmul 100 (dsub 1 0.07) = 93"
    by (simp add: double_eval)
  have reward: "\<bar>dsub (3519492740045865 / 35184372088832) 100\<bar>
      = 1055531162665 / 35184372088832"
    by (simp add: double_eval)
  have risk: "\<bar>dsub 100 93\<bar> = 7"
    by (simp add: double_eval)
  have ratio: "fdiv (Num (1055531162665 / 35184372088832)) (Num 7)
      = Num (150790166095 / 35184372088832)"
    by (simp add: jsnum_eval double_eval)
  have share: "fdiv (Num 7) (Num 100) = Num (1261007895663739 / 18014398509481984)"
    by (simp add: jsnum_eval double_eval)
  have amount: "dmul 100 0.02 = 2" "dmul 100 0.5 = 50"
    by (simp_all add: double_eval)
  have bound: "fdiv (Num 2) (Num (1261007895663739 / 18014398509481984))
      = Num (2010535547933257 / 70368744177664)"
    by (simp add: jsnum_eval double_eval)
  have f1: "map_option (toFixed 2) (p_tp1 (calculateTradeParams ?cfg BUY 100 0.8)) = Some 100.03"
    unfolding sel v1 by (simp add: toFixed_def)
  have f2: "p_sl (calculateTradeParams ?cfg BUY 100 0.8) = Some 93"
    unfolding sel v3 ..
  have f3: "p_riskReward (calculateTradeParams ?cfg BUY 100 0.8) = Num 0"
    unfolding sel v1 v3 reward risk ratio by (simp add: jtoFixed_def toFixed_def)
  have f4: "p_positionSize (calculateTradeParams ?cfg BUY 100 0.8) = Num 28.57"
    unfolding sel v3 risk share amount bound
    by (simp add: jtoFixed_def toFixed_def mathMin2_def less_jsnum_def jsLess_def)
  have f5: "\<bar>100.03 - 100\<bar> / \<bar>100 - 93\<bar> = (3 / 700 :: real)"
    by simp
  have f6: "min (accountBalance defaultConfig * riskPerTrade defaultConfig / (\<bar>100 - 93\<bar> / 100))
          (accountBalance defaultConfig * maxPositionPercent defaultConfig) = (200 / 7 :: real)"
    by (simp add: defaultConfig_def)
  from f1 f2 f3 f4 f5 f6 show ?thesis by (intro conjI)
qed

subsection \<open>The oversold rule\<close>

text \<open>
  Claim C7, amended. Whenever the RSI is below the oversold threshold, \<open>analyzeMarket\<close>
  emits BUY if the trend is bullish or neutral, with the confidence
  \<open>0.7 + (oversold - rsi) / 50\<close>, plus 0.05 when the price position is below 40,
  multiplied by 0.8 when the volatility is above the high-volatility threshold, every
  operation being one of doubles, the result then clamped to [0.3, 0.95] and rounded to
  two decimals; if the trend is bearish it emits HOLD with the wait-for-confirmation
  rationale. No later rule is consulted, and the confidence emitted is within
  [0.3, 0.95].
\<close>

theorem analyzeMarket_oversold:
  assumes os: "rsi (indicators s) < rsiOversold cfg"
  shows "(trend (indicators s) = bullish \<or> trend (indicators s) = neutral \<longrightarrow>
           sig_action (analyzeMarket cfg s) = BUY
           \<and> sig_confidence (analyzeMarket cfg s) =
               toFixed 2 (max (roundDouble 0.3) (min (roundDouble 0.95)
                 (if Num (highVolatility cfg) < volatility (indicators s)
                  then dmul (if pricePosition (indicators s) < 40
                             then dadd (dadd 0.7 (ddiv (dsub (rsiOversold cfg) (rsi (indicators s))) 50)) 0.05
                             else dadd 0.7 (ddiv (dsub (rsiOversold cfg) (rsi (indicators s))) 50)) 0.8
                  else (if pricePosition (indicators s) < 40
                        then dadd (dadd 0.7 (ddiv (dsub (rsiOversold cfg) (rsi (indicators s))) 50)) 0.05
                        else dadd 0.7 (ddiv (dsub (rsiOversold cfg) (rsi (indicators s))) 50))))))
     \<and> (trend (indicators s) = bearish \<longrightarrow>
           sig_action (analyzeMarket cfg s) = HOLD
           \<and> sig_reason (analyzeMarket cfg s) =
               RsiOversoldWait (toFixed 1 (roundDouble (rsi (indicators s))))
               # (if Num (highVolatility cfg) < volatility (indicators s)
                  then [HighVolatilityCaveat (jtoFixed 1 (fl (volatility (indicators s))))]
                  else []))
     \<and> 0.3 \<le> sig_confidence (analyzeMarket cfg s)
     \<and> sig_confidence (analyzeMarket cfg s) \<le> 0.95"
proof (intro conjI impI)
  assume "trend (indicators s) = bullish \<or> trend (indicators s) = neutral"
  with os show "sig_action (analyzeMarket cfg s) = BUY"
    by (auto simp add: analyzeMarket_def Let_def)
next
  assume "trend (indicators s) = bullish \<or> trend (indicators s) = neutral"
  with os show "sig_confidence (analyzeMarket cfg s) =
               toFixed 2 (max (roundDouble 0.3) (min (roundDouble 0.95)
                 (if Num (highVolatility cfg) < volatility (indicators s)
                  then dmul (if pricePosition (indicators s) < 40
                             then dadd (dadd 0.7 (ddiv (dsub (rsiOversold cfg) (rsi (indicators s))) 50)) 0.05
                             else dadd 0.7 (ddiv (dsub (rsiOversold cfg) (rsi (indicators s))) 50)) 0.8
                  else (if pricePosition (indicators s) < 40
                        then dadd (dadd 0.7 (ddiv (dsub (rsiOversold cfg) (rsi (indicators s))) 50)) 0.05
                        else dadd 0.7 (ddiv (dsub (rsiOversold cfg) (rsi (indicators s))) 50)))))"
    by (auto simp add: analyzeMarket_def Let_def)
next
  assume "trend (indicators s) = bearish"
  with os show "sig_action (analyzeMarket cfg s) = HOLD"
    by (simp add: analyzeMarket_def Let_def split: prod.split)
next
  assume "trend (indicators s) = bearish"
  with os show "sig_reason (analyzeMarket cfg s) =
               RsiOversoldWait (toFixed 1 (roundDouble (rsi (indicators s))))
               # (if Num (highVolatility cfg) < volatility (indicators s)
                  then [HighVolatilityCaveat (jtoFixed 1 (fl (volatility (indicators s))))]
                  else [])"
    by (simp add: analyzeMarket_def Let_def split: prod.split)
next
  have range: "0.3 \<le> sig_confidence (analyzeMarket cfg s)
      \<and> sig_confidence (analyzeMarket cfg s) \<le> 0.95"
    unfolding analyzeMarket_def Let_def
    by (simp only: toFixed_clamp_range signal.select_convs simp_thms split: prod.split)
  from range show "0.3 \<le> sig_confidence (analyzeMarket cfg s)" by (rule conjunct1)
  from range show "sig_confidence (analyzeMarket cfg s) \<le> 0.95" by (rule conjunct2)
qed

theorem analyzeMarket_oversold_witness:
  "rsi (indicators (marketState \<lparr> rsi = 20, trend = bullish, volatility = 2,
          support = Some 90, resistance = Some 110, pricePosition = 35 \<rparr>))
     < rsiOversold defaultConfig
   \<and> sig_action (analyzeMarket defaultConfig (marketState \<lparr> rsi = 20, trend = bullish,
          volatility = 2, support = Some 90, resistance = Some 110, pricePosition = 35 \<rparr>)) = BUY
   \<and> sig_confidence (analyzeMarket defaultConfig (marketState \<lparr> rsi = 20, trend = bullish,
          volatility = 2, support = Some 90, resistance = Some 110, pricePosition = 35 \<rparr>)) = 0.95
   \<and> rsi (indicators (marketState \<lparr> rsi = 29.75, trend = neutral, volatility = 2,
          support = Some 90, resistance = Some 110, pricePosition = 50 \<rparr>))
     < rsiOversold defaultConfig
   \<and> sig_action (analyzeMarket defaultConfig (marketState \<lparr> rsi = 29.75, trend = neutral,
          volatility = 2, support = Some 90, resistance = Some 110, pricePosition = 50 \<rparr>)) = BUY
   \<and> sig_confidence (analyzeMarket defaultConfig (marketState \<lparr> rsi = 29.75, trend = neutral,
          volatility = 2, support = Some 90, resistance = Some 110, pricePosition = 50 \<rparr>)) = 0.7
   \<and> rsi (indicators (marketState \<lparr> rsi = 25, trend = bearish, volatility = 2,
          support = Some 90, resistance = Some 110, pricePosition = 20 \<rparr>))
     < rsiOversold defaultConfig
   \<and> sig_action (analyzeMarket defaultConfig (marketState \<lparr> rsi = 25, trend = bearish,
          volatility = 2, support = Some 90, resistance = Some 110, pricePosition = 20 \<rparr>)) = HOLD
   \<and> sig_reason (analyzeMarket defaultConfig (marketState \<lparr> rsi = 25, trend = bearish,
          volatility = 2, support = Some 90, resistance = Some 110, pricePosition = 20 \<rparr>))
       = [RsiOversoldWait 25]"
proof -
  let ?up = "marketState \<lparr> rsi = 20, trend = bullish, volatility = 2,
          support = Some 90, resistance = Some 110, pricePosition = 35 \<rparr>"
  let ?tie = "marketState \<lparr> rsi = 29.75, trend = neutral, volatility = 2,
          support = Some 90, resistance = Some 110, pricePosition = 50 \<rparr>"
  let ?down = "marketState \<lparr> rsi = 25, trend = bearish, volatility = 2,
          support = Some 90, resistance = Some 110, pricePosition = 20 \<rparr>"
  have iu: "indicators ?up = \<lparr> rsi = 20, trend = bullish, volatility = 2,
          support = Some 90, resistance = Some 110, pricePosition = 35 \<rparr>"
    by (simp add: marketState_def)
  have it: "indicators ?tie = \<lparr> rsi = 29.75, trend = neutral, volatility = 2,
          support = Some 90, resistance = Some 110, pricePosition = 50 \<rparr>"
    by (simp add: marketState_def)
  have id: "indicators ?down = \<lparr> rsi = 25, trend = bearish, volatility = 2,
          support = Some 90, resistance = Some 110, pricePosition = 20 \<rparr>"
    by (simp add: marketState_def)
  have ou: "rsi (indicators ?up) < rsiOversold defaultConfig"
    unfolding iu by (simp add: defaultConfig_def)
  have ot: "rsi (indicators ?tie) < rsiOversold defaultConfig"
    unfolding it by (simp add: defaultConfig_def)
  have od: "rsi (indicators ?down) < rsiOversold defaultConfig"
    unfolding id by (simp add: defaultConfig_def)
  have calm: "\<not> Num (highVolatility defaultConfig) < (2 :: jsnum)"
    by (simp add: defaultConfig_def jsnum_eval)
  have lo: "roundDouble 0.3 = 5404319552844595 / 18014398509481984"
    and hi: "roundDouble 0.95 = 4278419646001971 / 4503599627370496"
    by (simp_all add: double_eval)
  have cu: "dadd (dadd 0.7 (ddiv (dsub 30 20) 50)) 0.05 = 4278419646001971 / 4503599627370496"
    by (simp add: double_eval)
  have ct: "dadd 0.7 (ddiv (dsub 30 29.75) 50) = 6350075474592399 / 9007199254740992"
    by (simp add: double_eval)
  have ru: "toFixed 2 (max (5404319552844595 / 18014398509481984)
      (min (4278419646001971 / 4503599627370496) (4278419646001971 / 4503599627370496))) = 0.95"
    by (simp add: toFixed_def)
  have rt: "toFixed 2 (max (5404319552844595 / 18014398509481984)
      (min (4278419646001971 / 4503599627370496) (6350075474592399 / 9007199254740992))) = 0.7"
    by (simp add: toFixed_def)
  have rd: "toFixed 1 (roundDouble 25) = 25"
    by (simp add: double_eval toFixed_def)
  have os30: "rsiOversold defaultConfig = 30"
    by (simp add: defaultConfig_def)
  from analyzeMarket_oversold [OF ou]
  have u0: "sig_action (analyzeMarket defaultConfig ?up) = BUY"
    "sig_confidence (analyzeMarket defaultConfig ?up) =
       toFixed 2 (max (roundDouble 0.3) (min (roundDouble 0.95)
         (dadd (dadd 0.7 (ddiv (dsub 30 20) 50)) 0.05)))"
    unfolding iu using calm by (simp_all add: os30)
  have u: "sig_confidence (analyzeMarket defaultConfig ?up) = 0.95"
    unfolding u0 lo hi cu ru by (rule refl)
  from analyzeMarket_oversold [OF ot]
  have t0: "sig_action (analyzeMarket defaultConfig ?tie) = BUY"
    "sig_confidence (analyzeMarket defaultConfig ?tie) =
       toFixed 2 (max (roundDouble 0.3) (min (roundDouble 0.95)
         (dadd 0.7 (ddiv (dsub 30 29.75) 50))))"
    unfolding it using calm by (simp_all add: os30)
  have t: "sig_confidence (analyzeMarket defaultConfig ?tie) = 0.7"
    unfolding t0 lo hi ct rt by (rule refl)
  from analyzeMarket_oversold [OF od]
  have d0: "sig_action (analyzeMarket defaultConfig ?down) = HOLD"
    "sig_reason (analyzeMarket defaultConfig ?down) = [RsiOversoldWait (toFixed 1 (roundDouble 25))]"
    unfolding id using calm by simp_all
  have d: "sig_reason (analyzeMarket defaultConfig ?down) = [RsiOversoldWait 25]"
    unfolding d0 rd by (rule refl)
  from ou u0(1) u ot t0(1) t od d0(1) d show ?thesis by (intro conjI)
qed

theorem analyzeMarket_oversold_counterexample:
  "rsi (indicators (marketState \<lparr> rsi = 20, trend = neutral, volatility = 10,
          support = Some 90, resistance = Some 110, pricePosition = 50 \<rparr>))
     < rsiOversold defaultConfig
   \<and> sig_action (analyzeMarket defaultConfig (marketState \<lparr> rsi = 20, trend = neutral,
          volatility = 10, support = Some 90, resistance = Some 110, pricePosition = 50 \<rparr>)) = BUY
   \<and> sig_confidence (analyzeMarket defaultConfig (marketState \<lparr> rsi = 20, trend = neutral,
          volatility = 10, support = Some 90, resistance = Some 110, pricePosition = 50 \<rparr>)) = 0.72
   \<and> max 0.3 (min 0.95 (0.7 + (rsiOversold defaultConfig - 20) / 50)) = (0.9 :: real)
   \<and> toFixed 2 (max (roundDouble 0.3) (min (roundDouble 0.95)
        (dadd 0.7 (ddiv (dsub (rsiOversold defaultConfig) 20) 50)))) = 0.9"
proof -
  let ?s = "marketState \<lparr> rsi = 20, trend = neutral, volatility = 10,
          support = Some 90, resistance = Some 110, pricePosition = 50 \<rparr>"
  have i: "indicators ?s = \<lparr> rsi = 20, trend = neutral, volatility = 10,
          support = Some 90, resistance = Some 110, pricePosition = 50 \<rparr>"
    by (simp add: marketState_def)
  have os30: "rsiOversold defaultConfig = 30"
    by (simp add: defaultConfig_def)
  have wild: "Num (highVolatility defaultConfig) < (10 :: jsnum)"
    by (simp add: defaultConfig_def jsnum_eval)
  have lo: "roundDouble 0.3 = 5404319552844595 / 18014398509481984"
    and hi: "roundDouble 0.95 = 4278419646001971 / 4503599627370496"
    by (simp_all add: double_eval)
  have c: "dadd 0.7 (ddiv (dsub 30 20) 50) = 2026619832316723 / 2251799813685248"
    by (simp add: double_eval)
  have cv: "dmul (2026619832316723 / 2251799813685248) 0.8 = 3242591731706757 / 4503599627370496"
    by (simp add: double_eval)
  have r: "toFixed 2 (max (5404319552844595 / 18014398509481984)
      (min (4278419646001971 / 4503599627370496) (3242591731706757 / 4503599627370496))) = 0.72"
    by (simp add: toFixed_def)
  have rc: "toFixed 2 (max (5404319552844595 / 18014398509481984)
      (min (4278419646001971 / 4503599627370496) (2026619832316723 / 2251799813685248))) = 0.9"
    by (simp add: toFixed_def)
  have f1: "rsi (indicators ?s) < rsiOversold defaultConfig"
    unfolding i by (simp add: defaultConfig_def)
  have f2: "sig_action (analyzeMarket defaultConfig ?s) = BUY"
    unfolding analyzeMarket_def i by (simp add: Let_def os30)
  have f30: "sig_confidence (analyzeMarket defaultConfig ?s) =
      toFixed 2 (max (roundDouble 0.3) (min (roundDouble 0.95)
        (dmul (dadd 0.7 (ddiv (dsub 30 20) 50)) 0.8)))"
    unfolding analyzeMarket_def i using wild by (simp add: Let_def os30)
  have f3: "sig_confidence (analyzeMarket defaultConfig ?s) = 0.72"
    unfolding f30 lo hi c cv r by (rule refl)
  have f4: "max 0.3 (min 0.95 (0.7 + (rsiOversold defaultConfig - 20) / 50)) = (0.9 :: real)"
    by (simp add: defaultConfig_def)
  have f5: "toFixed 2 (max (roundDouble 0.3) (min (roundDouble 0.95)
        (dadd 0.7 (ddiv (dsub (rsiOversold defaultConfig) 20) 50)))) = 0.9"
    unfolding os30 lo hi c rc by (rule refl)
  from f1 f2 f3 f4 f5 show ?thesis by (intro conjI)
qed

subsection \<open>Too few candles\<close>

lemma flatCandles_list:
  "flatCandles = [flatCandle, flatCandle, flatCandle, flatCandle, flatCandle, flatCandle,
     flatCandle, flatCandle, flatCandle, flatCandle, flatCandle, flatCandle, flatCandle,
     flatCandle, flatCandle, flatCandle, flatCandle, flatCandle, flatCandle, flatCandle]"
  by (simp add: flatCandles_def eval_nat_numeral)

text \<open>
  Claim C8, amended. With fewer than 20 candles \<open>calculateIndicators\<close> raises no error:
  it logs the insufficient-data warning and returns, leaving the indicator snapshot (and
  the rest of the state) as it was. The snapshot is then the neutral one of the
  constructor only if no snapshot was computed before.
\<close>

theorem calculateIndicators_few_candles:
  assumes "length (candles s) < 20"
  shows "calculateIndicators cfg s = Inr (s\<lparr> warnings := InsufficientCandles # warnings s \<rparr>)
     \<and> map_sum id indicators (calculateIndicators cfg s) = Inr (indicators s)"
  using assms by (simp add: calculateIndicators_def)

theorem calculateIndicators_few_candles_witness:
  "length (candles (initialState (exampleTrade BUY 101.5 103 98.8))) < 20
   \<and> map_sum id indicators
        (calculateIndicators defaultConfig (initialState (exampleTrade BUY 101.5 103 98.8)))
      = Inr initialIndicators
   \<and> map_sum id warnings
        (calculateIndicators defaultConfig (initialState (exampleTrade BUY 101.5 103 98.8)))
      = Inr [InsufficientCandles]"
proof -
  have h: "length (candles (initialState (exampleTrade BUY 101.5 103 98.8))) < 20"
    by (simp add: initialState_def)
  from h calculateIndicators_few_candles [OF h, of defaultConfig]
  show ?thesis by (simp add: initialState_def)
qed

theorem calculateIndicators_few_candles_counterexample:
  "calculateIndicators defaultConfig
       ((marketState initialIndicators)\<lparr> candles := flatCandles \<rparr>)
     = Inr ((marketState \<lparr> rsi = 100, trend = neutral, volatility = 0, support = Some 100,
               resistance = Some 100, pricePosition = 50 \<rparr>)\<lparr> candles := flatCandles \<rparr>)
   \<and> length (candles ((marketState \<lparr> rsi = 100, trend = neutral, volatility = 0,
               support = Some 100, resistance = Some 100, pricePosition = 50 \<rparr>)
               \<lparr> candles := take 19 flatCandles \<rparr>)) < 20
   \<and> map_sum id indicators
        (calculateIndicators defaultConfig
           ((marketState \<lparr> rsi = 100, trend = neutral, volatility = 0, support = Some 100,
               resistance = Some 100, pricePosition = 50 \<rparr>)\<lparr> candles := take 19 flatCandles \<rparr>))
      = Inr \<lparr> rsi = 100, trend = neutral, volatility = 0, support = Some 100,
               resistance = Some 100, pricePosition = 50 \<rparr>
   \<and> rsi initialIndicators = 50"
proof -
  have closes: "map c_close flatCandles =
      [100, 100, 100, 100, 100, 100, 100, 100, 100, 100,
       100, 100, 100, 100, 100, 100, 100, 100, 100, 100]"
    and highs: "map c_high flatCandles =
      [100, 100, 100, 100, 100, 100, 100, 100, 100, 100,
       100, 100, 100, 100, 100, 100, 100, 100, 100, 100]"
    and lows: "map c_low flatCandles =
      [100, 100, 100, 100, 100, 100, 100, 100, 100, 100,
       100, 100, 100, 100, 100, 100, 100, 100, 100, 100]"
    by (simp_all add: flatCandles_list flatCandle_def)
  have r: "calculateRSI [100, 100, 100, 100, 100, 100, 100, 100, 100, 100,
       100, 100, 100, 100, 100, 100, 100, 100, 100, 100] = 100"
    by (simp add: calculateRSI_def rsiSeedLoop.simps rsiSmoothLoop.simps Let_def)
  have t: "calculateTrend defaultConfig [100, 100, 100, 100, 100, 100, 100, 100, 100, 100,
       100, 100, 100, 100, 100, 100, 100, 100, 100, 100] = neutral"
    by (simp add: calculateTrend_def slice_last_def defaultConfig_def Let_def)
  have v: "calculateVolatility [100, 100, 100, 100, 100, 100, 100, 100, 100, 100,
       100, 100, 100, 100, 100, 100, 100, 100, 100, 100] = 0"
    by (simp add: calculateVolatility_def Let_def upt_rec zero_jsnum_def)
  have sr: "calculateSupportResistance
       [100, 100, 100, 100, 100, 100, 100, 100, 100, 100,
        100, 100, 100, 100, 100, 100, 100, 100, 100, 100]
       [100, 100, 100, 100, 100, 100, 100, 100, 100, 100,
        100, 100, 100, 100, 100, 100, 100, 100, 100, 100] 100
     = \<lparr> sr_support = Some 100, sr_resistance = Some 100, sr_pricePosition = 50 \<rparr>"
    by (simp add: calculateSupportResistance_def slice_last_def Let_def)
  have len: "length flatCandles = 20" by (simp add: flatCandles_def)
  have first: "calculateIndicators defaultConfig
       ((marketState initialIndicators)\<lparr> candles := flatCandles \<rparr>)
     = Inr ((marketState \<lparr> rsi = 100, trend = neutral, volatility = 0, support = Some 100,
               resistance = Some 100, pricePosition = 50 \<rparr>)\<lparr> candles := flatCandles \<rparr>)"
    by (simp add: calculateIndicators_def marketState_def len closes highs lows r t v sr Let_def)
  have second: "length (candles ((marketState \<lparr> rsi = 100, trend = neutral, volatility = 0,
               support = Some 100, resistance = Some 100, pricePosition = 50 \<rparr>)
               \<lparr> candles := take 19 flatCandles \<rparr>)) < 20"
    by (simp add: len)
  have third: "map_sum id indicators
        (calculateIndicators defaultConfig
           ((marketState \<lparr> rsi = 100, trend = neutral, volatility = 0, support = Some 100,
               resistance = Some 100, pricePosition = 50 \<rparr>)\<lparr> candles := take 19 flatCandles \<rparr>))
      = Inr \<lparr> rsi = 100, trend = neutral, volatility = 0, support = Some 100,
               resistance = Some 100, pricePosition = 50 \<rparr>"
    by (simp add: calculateIndicators_def len marketState_def)
  have fourth: "rsi initialIndicators = 50" by (simp add: initialIndicators_def)
  from first second third fourth show ?thesis by (intro conjI)
qed

end
